theory Spec2Isabelle
  imports Main "HOL-Library.AList"
begin

section \<open>Tool handlers of the LSP bridge (src/tools/index.ts)\<close>

subsection \<open>Values\<close>

text \<open>
  Values that cross the boundary as opaque JSON (completion items, code actions,
  diagnostics). An object is the list of its properties in creation order; the order in
  which \<^verbatim>\<open>JSON.stringify\<close> enumerates integer-like keys is not modelled.
\<close>

datatype json =
    JNull
  | JBool bool
  | JNum int
  | JStr string
  | JArr "json list"
  | JObj "(string \<times> json) list"

text \<open>What a handler can throw: an \<^verbatim>\<open>Error\<close>, the \<^verbatim>\<open>TypeError\<close> of a property read on
  \<^verbatim>\<open>null\<close>, or any other value (kept as the text \<^verbatim>\<open>String(error)\<close> gives).\<close>

datatype thrown =
    JsError string
  | JsTypeError string
  | JsOther string

text \<open>\<^verbatim>\<open>error instanceof Error ? error.message : String(error)\<close>\<close>

fun errorMessage :: "thrown \<Rightarrow> string" where
  "errorMessage (JsError m) = m"
| "errorMessage (JsTypeError m) = m"
| "errorMessage (JsOther s) = s"

text \<open>The message of the \<^verbatim>\<open>TypeError\<close> raised by \<^verbatim>\<open>null.prop\<close> (the wording of V8).\<close>

definition null_property_message :: "string \<Rightarrow> string" where
  "null_property_message prop = ''Cannot read properties of null (reading '' @ [CHR 39] @ prop @ [CHR 39] @ '')''"

record Position =
  line :: int
  character :: int

record Range =
  range_start :: Position
  range_end :: Position

text \<open>The text of a content item: a string built by the handler, or
  \<^verbatim>\<open>JSON.stringify(v, null, 2)\<close> of a value, kept symbolic.\<close>

datatype content_item = Text string | Stringify json

record tool_result =
  content :: "content_item list"

datatype log_level = Debug | Info | LogError

subsection \<open>Numbers\<close>

text \<open>
  A JavaScript number is an IEEE-754 double. The line and column arguments are modelled
  as the integers among the doubles, and \<^verbatim>\<open>a - b\<close> is the exact difference rounded to the
  nearest double, ties to the even significand. Every integer up to \<open>2 ^ 53\<close> in
  magnitude is a double; an integer of \<open>b > 53\<close> bits is rounded to a multiple of
  \<open>2 ^ (b - 53)\<close>. (A difference of two finite doubles of this kind does not overflow.)
\<close>

function bit_length :: "int \<Rightarrow> nat" where
  "bit_length n = (if n \<le> 0 then 0 else Suc (bit_length (n div 2)))"
  by pat_completeness auto
termination
  by (relation "measure nat") auto

definition to_double :: "int \<Rightarrow> int" where
  "to_double n =
     (if \<bar>n\<bar> \<le> 2 ^ 53 then n
      else
        let q = 2 ^ (bit_length \<bar>n\<bar> - 53);
            m = \<bar>n\<bar> div q;
            r = \<bar>n\<bar> mod q;
            m' = (if 2 * r < q then m
                  else if q < 2 * r then m + 1
                  else if even m then m else m + 1)
        in sgn n * (m' * q))"

text \<open>\<^verbatim>\<open>a - b\<close> on numbers\<close>

definition js_minus :: "int \<Rightarrow> int \<Rightarrow> int" where
  "js_minus a b = to_double (a - b)"

subsection \<open>The client interface\<close>

text \<open>The method calls a handler makes on the \<^verbatim>\<open>LSPClient\<close> object, with their arguments.\<close>

datatype client_call =
    OpenDocument string string string
  | CloseDocument string
  | GetInfoOnLocation string Position
  | GetCompletion string Position
  | GetCodeActions string Range
  | Restart string
  | Initialize string

text \<open>
  Everything a handler does to the outside: logging (the level only; the message text is
  not modelled), reading a file, constructing a client, the two callbacks
  \<^verbatim>\<open>setLspClient\<close> and \<^verbatim>\<open>setRootDir\<close> it was given, \<^verbatim>\<open>setLogLevel\<close>, and the
  asynchronous method calls on the client.
\<close>

datatype 'c event =
    Log log_level
  | ReadFile string
  | NewLSPClient string "string list"
  | SetLspClient 'c
  | SetRootDir string
  | SetLogLevel string
  | Call client_call

text \<open>
  Modelled from the spec: the class \<^verbatim>\<open>LSPClient\<close> (src/lspClient.ts) is missing from
  the sources, so the handlers take its methods as a parameter over the state \<open>'c\<close> of
  a client object. An asynchronous method returns what it resolves or rejects with and
  the new state of the object. \<^verbatim>\<open>isDocumentOpen\<close>, \<^verbatim>\<open>getDiagnostics\<close> and
  \<^verbatim>\<open>getAllDiagnostics\<close> are the read-only, synchronous lookups of the spec (4.6): functions
  of the state. \<^verbatim>\<open>getAllDiagnostics\<close> returns a \<^verbatim>\<open>Map\<close>: its entries in insertion order.
\<close>

record 'c LSPClient =
  new_LSPClient :: "string \<Rightarrow> string list \<Rightarrow> 'c"
  initialize :: "string \<Rightarrow> 'c \<Rightarrow> (thrown + unit) \<times> 'c"
  restart :: "string \<Rightarrow> 'c \<Rightarrow> (thrown + unit) \<times> 'c"
  openDocument :: "string \<Rightarrow> string \<Rightarrow> string \<Rightarrow> 'c \<Rightarrow> (thrown + unit) \<times> 'c"
  closeDocument :: "string \<Rightarrow> 'c \<Rightarrow> (thrown + unit) \<times> 'c"
  getInfoOnLocation :: "string \<Rightarrow> Position \<Rightarrow> 'c \<Rightarrow> (thrown + string) \<times> 'c"
  getCompletion :: "string \<Rightarrow> Position \<Rightarrow> 'c \<Rightarrow> (thrown + json list) \<times> 'c"
  getCodeActions :: "string \<Rightarrow> Range \<Rightarrow> 'c \<Rightarrow> (thrown + json list) \<times> 'c"
  isDocumentOpen :: "'c \<Rightarrow> string \<Rightarrow> bool"
  getDiagnostics :: "'c \<Rightarrow> string \<Rightarrow> json list"
  getAllDiagnostics :: "'c \<Rightarrow> (string \<times> json list) list"

text \<open>
  The other parameters of \<^verbatim>\<open>getToolHandlers\<close> and the two Node library functions the
  handlers use: \<^verbatim>\<open>fs.readFile(p, 'utf-8')\<close> and \<^verbatim>\<open>path.resolve\<close>.
\<close>

record env =
  lspServerPath :: string
  lspServerArgs :: "string list"
  rootDir :: string
  readFile :: "string \<Rightarrow> thrown + string"
  resolve :: "string \<Rightarrow> string"

subsection \<open>Running a handler\<close>

text \<open>
  The state of a run: the object the handlers' parameter \<^verbatim>\<open>lspClient\<close> refers to
  (\<open>None\<close> when it is \<^verbatim>\<open>null\<close>; the binding itself never changes during a call) and the
  events so far. A computation returns a value or what it threw, and the new state.
\<close>

record 'c run =
  lspClient :: "'c option"
  trace :: "'c event list"

type_synonym ('c, 'a) prog = "'c run \<Rightarrow> (thrown + 'a) \<times> 'c run"

definition ret :: "'a \<Rightarrow> ('c, 'a) prog" where
  "ret a = (\<lambda>s. (Inr a, s))"

definition throw :: "thrown \<Rightarrow> ('c, 'a) prog" where
  "throw e = (\<lambda>s. (Inl e, s))"

definition bind :: "('c, 'a) prog \<Rightarrow> ('a \<Rightarrow> ('c, 'b) prog) \<Rightarrow> ('c, 'b) prog" where
  "bind m f = (\<lambda>s. case m s of (Inl e, s') \<Rightarrow> (Inl e, s') | (Inr a, s') \<Rightarrow> f a s')"

text \<open>\<^verbatim>\<open>try { m } catch (error) { h(error) }\<close>\<close>

definition try_catch :: "('c, 'a) prog \<Rightarrow> (thrown \<Rightarrow> ('c, 'a) prog) \<Rightarrow> ('c, 'a) prog" where
  "try_catch m h = (\<lambda>s. case m s of (Inl e, s') \<Rightarrow> h e s' | (Inr a, s') \<Rightarrow> (Inr a, s'))"

definition emit :: "'c event \<Rightarrow> ('c, unit) prog" where
  "emit ev = (\<lambda>s. (Inr (), s\<lparr>trace := trace s @ [ev]\<rparr>))"

text \<open>\<^verbatim>\<open>await fs.readFile(p, 'utf-8')\<close>\<close>

definition read_file :: "env \<Rightarrow> string \<Rightarrow> ('c, string) prog" where
  "read_file E p = (\<lambda>s. (readFile E p, s\<lparr>trace := trace s @ [ReadFile p]\<rparr>))"

text \<open>
  \<^verbatim>\<open>await lspClient!.method(...)\<close>: the non-null assertion is erased by the compiler, so on
  \<^verbatim>\<open>null\<close> the property read throws a \<^verbatim>\<open>TypeError\<close> and no call is made.
\<close>

definition call_client :: "string \<Rightarrow> client_call \<Rightarrow> ('c \<Rightarrow> (thrown + 'a) \<times> 'c) \<Rightarrow> ('c, 'a) prog" where
  "call_client name ev m = (\<lambda>s.
     case lspClient s of
       None \<Rightarrow> (Inl (JsTypeError (null_property_message name)), s)
     | Some c \<Rightarrow> (case m c of (r, c') \<Rightarrow> (r, s\<lparr>lspClient := Some c', trace := trace s @ [Call ev]\<rparr>)))"

text \<open>
  One computation per asynchronous method of the client: the call that is logged is the
  call that is made.
\<close>

definition lsp_initialize :: "'c LSPClient \<Rightarrow> string \<Rightarrow> ('c, unit) prog" where
  "lsp_initialize L dir = call_client ''initialize'' (Initialize dir) (initialize L dir)"

definition lsp_restart :: "'c LSPClient \<Rightarrow> string \<Rightarrow> ('c, unit) prog" where
  "lsp_restart L dir = call_client ''restart'' (Restart dir) (restart L dir)"

definition lsp_openDocument :: "'c LSPClient \<Rightarrow> string \<Rightarrow> string \<Rightarrow> string \<Rightarrow> ('c, unit) prog" where
  "lsp_openDocument L uri txt lang =
     call_client ''openDocument'' (OpenDocument uri txt lang) (openDocument L uri txt lang)"

definition lsp_closeDocument :: "'c LSPClient \<Rightarrow> string \<Rightarrow> ('c, unit) prog" where
  "lsp_closeDocument L uri = call_client ''closeDocument'' (CloseDocument uri) (closeDocument L uri)"

definition lsp_getInfoOnLocation :: "'c LSPClient \<Rightarrow> string \<Rightarrow> Position \<Rightarrow> ('c, string) prog" where
  "lsp_getInfoOnLocation L uri pos =
     call_client ''getInfoOnLocation'' (GetInfoOnLocation uri pos) (getInfoOnLocation L uri pos)"

definition lsp_getCompletion :: "'c LSPClient \<Rightarrow> string \<Rightarrow> Position \<Rightarrow> ('c, json list) prog" where
  "lsp_getCompletion L uri pos =
     call_client ''getCompletion'' (GetCompletion uri pos) (getCompletion L uri pos)"

definition lsp_getCodeActions :: "'c LSPClient \<Rightarrow> string \<Rightarrow> Range \<Rightarrow> ('c, json list) prog" where
  "lsp_getCodeActions L uri rng =
     call_client ''getCodeActions'' (GetCodeActions uri rng) (getCodeActions L uri rng)"

text \<open>\<^verbatim>\<open>lspClient!.lookup(...)\<close> for the synchronous lookups.\<close>

definition ask_client :: "string \<Rightarrow> ('c \<Rightarrow> 'a) \<Rightarrow> ('c, 'a) prog" where
  "ask_client name f = (\<lambda>s.
     case lspClient s of
       None \<Rightarrow> (Inl (JsTypeError (null_property_message name)), s)
     | Some c \<Rightarrow> (Inr (f c), s))"

text \<open>The asynchronous client calls in a trace, in order.\<close>

fun client_calls :: "'c event list \<Rightarrow> client_call list" where
  "client_calls [] = []"
| "client_calls (Call c # es) = c # client_calls es"
| "client_calls (_ # es) = client_calls es"

text \<open>The root directories handed to \<^verbatim>\<open>setRootDir\<close> in a trace, in order.\<close>

fun root_dir_updates :: "'c event list \<Rightarrow> string list" where
  "root_dir_updates [] = []"
| "root_dir_updates (SetRootDir d # es) = d # root_dir_updates es"
| "root_dir_updates (_ # es) = root_dir_updates es"

text \<open>
  Modelled from the spec: the caller that owns the stored root directory and passes
  \<^verbatim>\<open>setRootDir\<close> to the handlers (src/index.ts) is missing from the sources. By the spec
  (4.6) a root directory is stored and reused: the stored root directory after a trace is
  the last value \<^verbatim>\<open>setRootDir\<close> was called with, or the initial one if it was not called.
\<close>

definition stored_root_dir :: "string \<Rightarrow> 'c event list \<Rightarrow> string" where
  "stored_root_dir initial tr = last (initial # root_dir_updates tr)"

subsection \<open>Helpers of the module\<close>

text \<open>\<^verbatim>\<open>createFileUri\<close>\<close>

definition createFileUri :: "env \<Rightarrow> string \<Rightarrow> string" where
  "createFileUri E filePath = ''file://'' @ resolve E filePath"

definition not_started_message :: string where
  "not_started_message = ''LSP server not started. Call start_lsp first with a root directory.''"

text \<open>\<^verbatim>\<open>checkLspClientInitialized\<close>\<close>

definition checkLspClientInitialized :: "('c, unit) prog" where
  "checkLspClientInitialized = (\<lambda>s.
     case lspClient s of
       None \<Rightarrow> (Inl (JsError not_started_message), s)
     | Some c \<Rightarrow> (Inr (), s))"

text \<open>
  An optional string argument as JavaScript tests it: \<^verbatim>\<open>undefined\<close> and the empty
  string are falsy. The result is the string when it is truthy.
\<close>

fun truthy :: "string option \<Rightarrow> string option" where
  "truthy None = None"
| "truthy (Some s) = (if s = [] then None else Some s)"

text \<open>\<^verbatim>\<open>a || b\<close> for an optional string \<open>a\<close>\<close>

definition js_or :: "string option \<Rightarrow> string \<Rightarrow> string" where
  "js_or a b = (case truthy a of None \<Rightarrow> b | Some s \<Rightarrow> s)"

text \<open>\<^verbatim>\<open>obj[key] = value\<close> on an object: an existing property keeps its place.\<close>

fun obj_assign :: "(string \<times> json) list \<Rightarrow> string \<Rightarrow> json \<Rightarrow> (string \<times> json) list" where
  "obj_assign [] k v = [(k, v)]"
| "obj_assign ((k', v') # ps) k v = (if k' = k then (k, v) # ps else (k', v') # obj_assign ps k v)"

subsection \<open>The handlers\<close>

text \<open>\<^verbatim>\<open>get_info_on_location\<close>\<close>

definition get_info_on_location ::
  "'c LSPClient \<Rightarrow> env \<Rightarrow> string \<Rightarrow> string \<Rightarrow> int \<Rightarrow> int \<Rightarrow> ('c, tool_result) prog" where
  "get_info_on_location L E file_path language_id ln column =
     bind (emit (Log Debug)) (\<lambda>_.
     bind checkLspClientInitialized (\<lambda>_.
     bind (read_file E file_path) (\<lambda>fileContent.
     let fileUri = createFileUri E file_path in
     bind (lsp_openDocument L fileUri fileContent language_id) (\<lambda>_.
     let pos = \<lparr>line = js_minus ln 1, character = js_minus column 1\<rparr> in
     bind (lsp_getInfoOnLocation L fileUri pos) (\<lambda>txt.
     bind (emit (Log Debug)) (\<lambda>_.
     ret \<lparr>content = [Text txt]\<rparr>))))))"

text \<open>\<^verbatim>\<open>get_completions\<close>\<close>

definition get_completions ::
  "'c LSPClient \<Rightarrow> env \<Rightarrow> string \<Rightarrow> string \<Rightarrow> int \<Rightarrow> int \<Rightarrow> ('c, tool_result) prog" where
  "get_completions L E file_path language_id ln column =
     bind (emit (Log Debug)) (\<lambda>_.
     bind checkLspClientInitialized (\<lambda>_.
     bind (read_file E file_path) (\<lambda>fileContent.
     let fileUri = createFileUri E file_path in
     bind (lsp_openDocument L fileUri fileContent language_id) (\<lambda>_.
     let pos = \<lparr>line = js_minus ln 1, character = js_minus column 1\<rparr> in
     bind (lsp_getCompletion L fileUri pos) (\<lambda>completions.
     bind (emit (Log Debug)) (\<lambda>_.
     ret \<lparr>content = [Stringify (JArr completions)]\<rparr>))))))"

text \<open>\<^verbatim>\<open>get_code_actions\<close>\<close>

definition get_code_actions ::
  "'c LSPClient \<Rightarrow> env \<Rightarrow> string \<Rightarrow> string \<Rightarrow> int \<Rightarrow> int \<Rightarrow> int \<Rightarrow> int \<Rightarrow> ('c, tool_result) prog" where
  "get_code_actions L E file_path language_id start_line start_column end_line end_column =
     bind (emit (Log Debug)) (\<lambda>_.
     bind checkLspClientInitialized (\<lambda>_.
     bind (read_file E file_path) (\<lambda>fileContent.
     let fileUri = createFileUri E file_path in
     bind (lsp_openDocument L fileUri fileContent language_id) (\<lambda>_.
     let rng = \<lparr>range_start = \<lparr>line = js_minus start_line 1, character = js_minus start_column 1\<rparr>,
                range_end = \<lparr>line = js_minus end_line 1, character = js_minus end_column 1\<rparr>\<rparr> in
     bind (lsp_getCodeActions L fileUri rng) (\<lambda>codeActions.
     bind (emit (Log Debug)) (\<lambda>_.
     ret \<lparr>content = [Stringify (JArr codeActions)]\<rparr>))))))"

text \<open>\<^verbatim>\<open>restart_lsp_server\<close>\<close>

definition restart_lsp_server :: "'c LSPClient \<Rightarrow> env \<Rightarrow> string option \<Rightarrow> ('c, tool_result) prog" where
  "restart_lsp_server L E root_dir =
     bind checkLspClientInitialized (\<lambda>_.
     let restartRootDir = js_or root_dir (rootDir E) in
     bind (emit (Log Info)) (\<lambda>_.
     try_catch
       (bind (case truthy root_dir of
                Some d \<Rightarrow> emit (SetRootDir d)
              | None \<Rightarrow> ret ()) (\<lambda>_.
        bind (lsp_restart L restartRootDir) (\<lambda>_.
        ret \<lparr>content = [Text (case truthy root_dir of
                 Some d \<Rightarrow> ''LSP server successfully restarted and initialized with root directory: '' @ d
               | None \<Rightarrow> ''LSP server successfully restarted'')]\<rparr>)))
       (\<lambda>error.
        bind (emit (Log LogError)) (\<lambda>_.
        throw (JsError (''Failed to restart LSP server: '' @ errorMessage error))))))"

text \<open>\<^verbatim>\<open>if (!lspClient) { ... }\<close>\<close>

definition unless_client :: "('c, unit) prog \<Rightarrow> ('c, unit) prog" where
  "unless_client m = (\<lambda>s. case lspClient s of None \<Rightarrow> m s | Some c \<Rightarrow> (Inr (), s))"

text \<open>
  \<^verbatim>\<open>start_lsp\<close>. The new client goes to the callback \<^verbatim>\<open>setLspClient\<close>;
  \<^verbatim>\<open>initialize\<close> is then called on the handlers' own parameter \<^verbatim>\<open>lspClient\<close>. The text on
  success names the parameter \<^verbatim>\<open>rootDir\<close>.
\<close>

definition start_lsp :: "'c LSPClient \<Rightarrow> env \<Rightarrow> string option \<Rightarrow> ('c, tool_result) prog" where
  "start_lsp L E root_dir =
     (let startRootDir = js_or root_dir (rootDir E) in
      bind (emit (Log Info)) (\<lambda>_.
      try_catch
        (bind (emit (SetRootDir startRootDir)) (\<lambda>_.
         bind (unless_client
                 (let newClient = new_LSPClient L (lspServerPath E) (lspServerArgs E) in
                  bind (emit (NewLSPClient (lspServerPath E) (lspServerArgs E))) (\<lambda>_.
                  emit (SetLspClient newClient)))) (\<lambda>_.
         bind (lsp_initialize L startRootDir) (\<lambda>_.
         ret \<lparr>content = [Text (''LSP server successfully started with root directory: '' @ rootDir E)]\<rparr>))))
        (\<lambda>error.
         bind (emit (Log LogError)) (\<lambda>_.
         throw (JsError (''Failed to start LSP server: '' @ errorMessage error))))))"

text \<open>\<^verbatim>\<open>open_document\<close>\<close>

definition open_document :: "'c LSPClient \<Rightarrow> env \<Rightarrow> string \<Rightarrow> string \<Rightarrow> ('c, tool_result) prog" where
  "open_document L E file_path language_id =
     bind (emit (Log Debug)) (\<lambda>_.
     bind checkLspClientInitialized (\<lambda>_.
     try_catch
       (bind (read_file E file_path) (\<lambda>fileContent.
        let fileUri = createFileUri E file_path in
        bind (lsp_openDocument L fileUri fileContent language_id) (\<lambda>_.
        ret \<lparr>content = [Text (''File successfully opened: '' @ file_path)]\<rparr>)))
       (\<lambda>error.
        bind (emit (Log LogError)) (\<lambda>_.
        throw (JsError (''Failed to open document: '' @ errorMessage error))))))"

text \<open>\<^verbatim>\<open>close_document\<close>\<close>

definition close_document :: "'c LSPClient \<Rightarrow> env \<Rightarrow> string \<Rightarrow> ('c, tool_result) prog" where
  "close_document L E file_path =
     bind (emit (Log Debug)) (\<lambda>_.
     bind checkLspClientInitialized (\<lambda>_.
     try_catch
       (let fileUri = createFileUri E file_path in
        bind (lsp_closeDocument L fileUri) (\<lambda>_.
        ret \<lparr>content = [Text (''File successfully closed: '' @ file_path)]\<rparr>))
       (\<lambda>error.
        bind (emit (Log LogError)) (\<lambda>_.
        throw (JsError (''Failed to close document: '' @ errorMessage error))))))"

text \<open>The \<^verbatim>\<open>forEach\<close> over the entries of \<^verbatim>\<open>allDiagnostics\<close>, filling \<^verbatim>\<open>diagnosticsObject\<close>.\<close>

fun forEach_open ::
  "'c LSPClient \<Rightarrow> (string \<times> json list) list \<Rightarrow> (string \<times> json) list \<Rightarrow> ('c, (string \<times> json) list) prog" where
  "forEach_open L [] diagnosticsObject = ret diagnosticsObject"
| "forEach_open L ((key, val) # entries) diagnosticsObject =
     bind (ask_client ''isDocumentOpen'' (\<lambda>c. isDocumentOpen L c key)) (\<lambda>is_open.
     forEach_open L entries
       (if is_open then obj_assign diagnosticsObject key (JArr val) else diagnosticsObject))"

definition not_open_message :: "string \<Rightarrow> string" where
  "not_open_message file_path =
     ''File '' @ file_path @ '' is not open. Please open the file with open_document before requesting diagnostics.''"

text \<open>\<^verbatim>\<open>get_diagnostics\<close>\<close>

definition get_diagnostics :: "'c LSPClient \<Rightarrow> env \<Rightarrow> string option \<Rightarrow> ('c, tool_result) prog" where
  "get_diagnostics L E file_path =
     bind checkLspClientInitialized (\<lambda>_.
     try_catch
       (case truthy file_path of
          Some fp \<Rightarrow>
            bind (emit (Log Debug)) (\<lambda>_.
            let fileUri = createFileUri E fp in
            bind (ask_client ''isDocumentOpen'' (\<lambda>c. isDocumentOpen L c fileUri)) (\<lambda>is_open.
            if \<not> is_open then throw (JsError (not_open_message fp))
            else
              bind (ask_client ''getDiagnostics'' (\<lambda>c. getDiagnostics L c fileUri)) (\<lambda>diagnostics.
              ret \<lparr>content = [Stringify (JObj [(fileUri, JArr diagnostics)])]\<rparr>)))
        | None \<Rightarrow>
            bind (emit (Log Debug)) (\<lambda>_.
            bind (ask_client ''getAllDiagnostics'' (getAllDiagnostics L)) (\<lambda>allDiagnostics.
            bind (forEach_open L allDiagnostics []) (\<lambda>diagnosticsObject.
            ret \<lparr>content = [Stringify (JObj diagnosticsObject)]\<rparr>))))
       (\<lambda>error.
        bind (emit (Log LogError)) (\<lambda>_.
        throw (JsError (''Failed to get diagnostics: '' @ errorMessage error)))))"

text \<open>\<^verbatim>\<open>set_log_level\<close>\<close>

definition set_log_level :: "string \<Rightarrow> ('c, tool_result) prog" where
  "set_log_level level =
     bind (emit (SetLogLevel level)) (\<lambda>_.
     ret \<lparr>content = [Text (''Log level set to: '' @ level)]\<rparr>)"

section \<open>The protocol client adapter\<close>

subsection \<open>Document state store and hover normalisation\<close>

text \<open>
  Modelled from the spec: the document state store and the facade of the client adapter
  (src/lspClient.ts) are missing from the sources; sections 3, 4.5 and 4.6 of the spec
  describe them. A document state holds the language id, the version (1 at open) and the
  content at open time; the store has one entry per open uri; the diagnostics cache maps
  a uri to its last published diagnostics; \<open>sent\<close> lists the notifications written to
  the server, in order.
\<close>

record DocumentState =
  languageId :: string
  version :: nat
  snapshot :: string

datatype notification =
    DidOpen string string nat string
  | DidClose string

datatype failure = NotInitialized

record client =
  initialized :: bool
  documents :: "(string \<times> DocumentState) list"
  diagnosticsCache :: "(string \<times> json list) list"
  sent :: "notification list"

text \<open>Modelled from the spec: \<open>isOpen(uri)\<close>, whether the store tracks the uri.\<close>

definition isOpen :: "client \<Rightarrow> string \<Rightarrow> bool" where
  "isOpen c uri = (map_of (documents c) uri \<noteq> None)"

text \<open>
  Modelled from the spec: \<open>open(uri, content, languageId)\<close>. Before the initialize
  handshake it fails with NotInitialized; for a tracked uri it is a no-op; otherwise it
  records the document at version 1 and sends the open notification.
\<close>

definition open_uri :: "client \<Rightarrow> string \<Rightarrow> string \<Rightarrow> string \<Rightarrow> failure + client" where
  "open_uri c uri text_content lang =
     (if \<not> initialized c then Inl NotInitialized
      else if isOpen c uri then Inr c
      else Inr (c\<lparr>documents := documents c @ [(uri, \<lparr>languageId = lang, version = 1, snapshot = text_content\<rparr>)],
                  sent := sent c @ [DidOpen uri lang 1 text_content]\<rparr>))"

text \<open>
  Modelled from the spec: \<open>close(uri)\<close> sends the close notification and removes the
  document entry and its diagnostics; on a uri that is not open it is a no-op.
\<close>

definition close_uri :: "client \<Rightarrow> string \<Rightarrow> failure + client" where
  "close_uri c uri =
     (if \<not> initialized c then Inl NotInitialized
      else if \<not> isOpen c uri then Inr c
      else Inr (c\<lparr>documents := AList.delete uri (documents c),
                  diagnosticsCache := AList.delete uri (diagnosticsCache c),
                  sent := sent c @ [DidClose uri]\<rparr>))"

text \<open>Modelled from the spec: \<open>diagnosticsFor(uri)\<close>, the cached sequence (empty when none).\<close>

definition diagnosticsFor :: "client \<Rightarrow> string \<Rightarrow> json list" where
  "diagnosticsFor c uri = (case map_of (diagnosticsCache c) uri of None \<Rightarrow> [] | Some ds \<Rightarrow> ds)"

text \<open>The number of open notifications for a uri among those sent.\<close>

fun didOpen_count :: "string \<Rightarrow> notification list \<Rightarrow> nat" where
  "didOpen_count uri [] = 0"
| "didOpen_count uri (DidOpen u l v t # ns) = (if u = uri then 1 else 0) + didOpen_count uri ns"
| "didOpen_count uri (DidClose u # ns) = didOpen_count uri ns"

text \<open>
  Modelled from the spec: the result of a hover request, absent (\<open>None\<close>) or carrying
  contents that are null or one of the textual shapes of the protocol (sections 4.6
  and 9): markup content, a marked string, or a sequence of marked strings.
\<close>

datatype MarkedString = MarkedText string | MarkedCode string string

datatype HoverContents =
    MarkupContent string string
  | Marked MarkedString
  | MarkedSeq "MarkedString list"

record Hover =
  contents :: "HoverContents option"

fun marked_text :: "MarkedString \<Rightarrow> string" where
  "marked_text (MarkedText s) = s"
| "marked_text (MarkedCode lang s) = s"

fun join :: "string \<Rightarrow> string list \<Rightarrow> string" where
  "join sep [] = []"
| "join sep [x] = x"
| "join sep (x # y # ys) = x @ sep @ join sep (y # ys)"

text \<open>
  Modelled from the spec: the normalisation of a hover result to one flat string, empty
  for a null result and for null contents. The spec does not say what separates the
  elements of a sequence; \<open>sep\<close> is that separator.
\<close>

fun normalizeHover :: "string \<Rightarrow> Hover option \<Rightarrow> string" where
  "normalizeHover sep None = []"
| "normalizeHover sep (Some h) =
     (case contents h of
        None \<Rightarrow> []
      | Some (MarkupContent kind val) \<Rightarrow> val
      | Some (Marked m) \<Rightarrow> marked_text m
      | Some (MarkedSeq ms) \<Rightarrow> join sep (map marked_text ms))"

subsection \<open>Message framer\<close>

text \<open>
  Modelled from the spec: the message framer (src/lspClient.ts) is missing from the
  sources; sections 4.1 and 6 of the spec describe it. A frame is
  \<^verbatim>\<open>Content-Length: <N>\r\n\r\n<N-byte UTF-8 JSON body>\<close>. Strings are byte sequences,
  and a decoded message is the body of its frame (the JSON text, whose parsing is a
  function of the body alone).
\<close>

definition header_end :: string where
  "header_end = [CHR 0x0D, CHR 0x0A, CHR 0x0D, CHR 0x0A]"

definition header_name :: string where
  "header_name = ''Content-Length: ''"

definition digit_char :: "nat \<Rightarrow> char" where
  "digit_char d = char_of (48 + d)"

function show_nat :: "nat \<Rightarrow> string" where
  "show_nat n = (if n < 10 then [digit_char n] else show_nat (n div 10) @ [digit_char (n mod 10)])"
  by pat_completeness auto
termination
  by (relation "measure id") auto

text \<open>Modelled from the spec: \<open>encode(message)\<close>, the header line with the byte length
  of the body, a blank line, the body.\<close>

definition encode :: "string \<Rightarrow> string" where
  "encode body = header_name @ show_nat (length body) @ header_end @ body"

definition digit_val :: "char \<Rightarrow> nat option" where
  "digit_val ch = (let k = (of_char ch :: nat) in if 48 \<le> k \<and> k \<le> 57 then Some (k - 48) else None)"

fun parse_digits :: "nat \<Rightarrow> string \<Rightarrow> nat option" where
  "parse_digits acc [] = Some acc"
| "parse_digits acc (ch # cs) =
     (case digit_val ch of None \<Rightarrow> None | Some d \<Rightarrow> parse_digits (acc * 10 + d) cs)"

text \<open>The length a header block declares; \<open>None\<close> for a malformed header or a
  length that is not a decimal number.\<close>

definition parse_content_length :: "string \<Rightarrow> nat option" where
  "parse_content_length h =
     (if take (length header_name) h = header_name \<and> drop (length header_name) h \<noteq> []
      then parse_digits 0 (drop (length header_name) h) else None)"

text \<open>The header block before the first blank line and the bytes after it.\<close>

fun split_header :: "string \<Rightarrow> (string \<times> string) option" where
  "split_header (a # b # c # d # rest) =
     (if [a, b, c, d] = header_end then Some ([], rest)
      else map_option (\<lambda>(h, r). (a # h, r)) (split_header (b # c # d # rest)))"
| "split_header _ = None"

datatype decoded = NeedMore | Malformed | Frame string string

definition decode_one :: "string \<Rightarrow> decoded" where
  "decode_one buf =
     (case split_header buf of
        None \<Rightarrow> NeedMore
      | Some (h, r) \<Rightarrow>
          (case parse_content_length h of
             None \<Rightarrow> Malformed
           | Some n \<Rightarrow> if length r < n then NeedMore else Frame (take n r) (drop n r)))"

text \<open>
  All complete frames at the front of the buffer: the messages, the bytes kept for the
  next read, and whether a framing error was met (the connection is then corrupted and
  the buffer dropped).
\<close>

function drain :: "string \<Rightarrow> string list \<times> string \<times> bool" where
  "drain buf =
     (case decode_one buf of
        NeedMore \<Rightarrow> ([], buf, False)
      | Malformed \<Rightarrow> ([], [], True)
      | Frame body rest \<Rightarrow> (case drain rest of (ms, b, err) \<Rightarrow> (body # ms, b, err)))"
  by pat_completeness auto
termination
proof (relation "measure length")
  show "wf (measure length)" by simp
next
  fix buf :: string and body rest
  assume dec: "decode_one buf = Frame body rest"
  have split_len: "split_header xs = Some (h, r) \<Longrightarrow> length r < length xs" for xs h r
    by (induction xs arbitrary: h rule: split_header.induct) (auto split: if_splits)
  from dec obtain h r n where "split_header buf = Some (h, r)" and "rest = drop n r"
    by (auto simp: decode_one_def split: option.splits if_splits)
  with split_len [of buf h r] show "(rest, buf) \<in> measure length"
    by simp
qed

text \<open>Modelled from the spec: the framer keeps an accumulating buffer across reads;
  \<open>feed\<close> appends a chunk and yields the messages it completes.\<close>

record framer =
  buffer :: string
  corrupted :: bool

definition new_framer :: framer where
  "new_framer = \<lparr>buffer = [], corrupted = False\<rparr>"

definition feed :: "framer \<Rightarrow> string \<Rightarrow> string list \<times> framer" where
  "feed f chunk =
     (if corrupted f then ([], f)
      else case drain (buffer f @ chunk) of (ms, b, err) \<Rightarrow> (ms, \<lparr>buffer = b, corrupted = err\<rparr>))"

text \<open>Feeding chunks one at a time.\<close>

fun feed_all :: "framer \<Rightarrow> string list \<Rightarrow> string list \<times> framer" where
  "feed_all f [] = ([], f)"
| "feed_all f (chunk # chunks) =
     (case feed f chunk of (ms, f') \<Rightarrow>
        (case feed_all f' chunks of (ms', f'') \<Rightarrow> (ms @ ms', f'')))"

text \<open>The state of a framer between two reads: it is corrupted, or its buffer holds no
  complete frame.\<close>

definition drained :: "framer \<Rightarrow> bool" where
  "drained f = (corrupted f \<or> drain (buffer f) = ([], buffer f, False))"

declare drain.simps [simp del] show_nat.simps [simp del] bit_length.simps [simp del]

section \<open>A concrete client and environment\<close>

text \<open>
  A client object over the store above, whose server answers every hover request with
  the result \<open>reply\<close> and every completion and code action request with no items, and
  whose \<^verbatim>\<open>getAllDiagnostics\<close> hands out the whole cache (the handler is the consumer that
  intersects it with the open documents); and an environment with one file. The handlers
  are evaluated on them.
\<close>

definition failure_error :: "failure \<Rightarrow> thrown" where
  "failure_error f = (case f of NotInitialized \<Rightarrow> JsError ''NotInitialized'')"

definition store_client :: "Hover option \<Rightarrow> client LSPClient" where
  "store_client reply =
     \<lparr>new_LSPClient = (\<lambda>path args. \<lparr>initialized = False, documents = [], diagnosticsCache = [], sent = []\<rparr>),
      initialize = (\<lambda>dir c. (Inr (), c\<lparr>initialized := True\<rparr>)),
      restart = (\<lambda>dir c. (Inr (), c\<lparr>initialized := True, documents := [], diagnosticsCache := []\<rparr>)),
      openDocument = (\<lambda>uri txt lang c.
        case open_uri c uri txt lang of Inl f \<Rightarrow> (Inl (failure_error f), c) | Inr c' \<Rightarrow> (Inr (), c')),
      closeDocument = (\<lambda>uri c.
        case close_uri c uri of Inl f \<Rightarrow> (Inl (failure_error f), c) | Inr c' \<Rightarrow> (Inr (), c')),
      getInfoOnLocation = (\<lambda>uri pos c.
        if initialized c then (Inr (normalizeHover [CHR 0x0A] reply), c)
        else (Inl (failure_error NotInitialized), c)),
      getCompletion = (\<lambda>uri pos c. (Inr [], c)),
      getCodeActions = (\<lambda>uri rng c. (Inr [], c)),
      isDocumentOpen = isOpen,
      getDiagnostics = diagnosticsFor,
      getAllDiagnostics = diagnosticsCache\<rparr>"

definition sample_env :: env where
  "sample_env =
     \<lparr>lspServerPath = ''hls'',
      lspServerArgs = [''lsp''],
      rootDir = ''/project'',
      readFile = (\<lambda>p. if p = ''/project/a.hs'' then Inr ''main = print 1'' else Inl (JsError ''ENOENT'')),
      resolve = (\<lambda>p. if p = [] then ''/project'' else p)\<rparr>"

text \<open>An initialized client with no open document, and one with \<^verbatim>\<open>/project/a.hs\<close> open
  and diagnostics cached for it and for a uri that is not open.\<close>

definition fresh_client :: client where
  "fresh_client = \<lparr>initialized = True, documents = [], diagnosticsCache = [], sent = []\<rparr>"

definition busy_client :: client where
  "busy_client =
     \<lparr>initialized = True,
      documents = [(''file:///project/a.hs'', \<lparr>languageId = ''haskell'', version = 1, snapshot = ''main = print 1''\<rparr>)],
      diagnosticsCache = [(''file:///project/a.hs'', [JStr ''unused import'']),
                          (''file:///project/b.hs'', [JStr ''parse error''])],
      sent = [DidOpen ''file:///project/a.hs'' ''haskell'' 1 ''main = print 1'']\<rparr>"

text \<open>A client object whose state is the list of the method calls it has received, with
  their arguments; it answers every request with nothing.\<close>

definition recording_client :: "client_call list LSPClient" where
  "recording_client =
     \<lparr>new_LSPClient = (\<lambda>path args. []),
      initialize = (\<lambda>dir c. (Inr (), c @ [Initialize dir])),
      restart = (\<lambda>dir c. (Inr (), c @ [Restart dir])),
      openDocument = (\<lambda>uri txt lang c. (Inr (), c @ [OpenDocument uri txt lang])),
      closeDocument = (\<lambda>uri c. (Inr (), c @ [CloseDocument uri])),
      getInfoOnLocation = (\<lambda>uri pos c. (Inr [], c @ [GetInfoOnLocation uri pos])),
      getCompletion = (\<lambda>uri pos c. (Inr [], c @ [GetCompletion uri pos])),
      getCodeActions = (\<lambda>uri rng c. (Inr [], c @ [GetCodeActions uri rng])),
      isDocumentOpen = (\<lambda>c uri. False),
      getDiagnostics = (\<lambda>c uri. []),
      getAllDiagnostics = (\<lambda>c. [])\<rparr>"

section \<open>Properties of the handlers\<close>

lemmas prog_defs = bind_def ret_def throw_def try_catch_def emit_def read_file_def
  call_client_def ask_client_def checkLspClientInitialized_def unless_client_def
  lsp_initialize_def lsp_restart_def lsp_openDocument_def lsp_closeDocument_def
  lsp_getInfoOnLocation_def lsp_getCompletion_def lsp_getCodeActions_def

subsection \<open>The guard\<close>

text \<open>
  C1, as stated, fails: the guard tests only whether the handlers' client is \<^verbatim>\<open>null\<close>,
  not whether an initialize handshake has succeeded. On the client \<^verbatim>\<open>start_lsp\<close> has
  constructed and handed to \<^verbatim>\<open>setLspClient\<close>, which was never initialized,
  \<^verbatim>\<open>close_document\<close> passes the guard and calls \<^verbatim>\<open>closeDocument\<close> on the client (the error
  it reports is the client's, not "not started"), and \<^verbatim>\<open>get_diagnostics\<close> succeeds.
\<close>

theorem guard_accepts_uninitialized_client_counterexample:
  "\<not> initialized (new_LSPClient (store_client None) (lspServerPath sample_env) (lspServerArgs sample_env))
   \<and> close_document (store_client None) sample_env ''/project/a.hs''
       \<lparr>lspClient = Some (new_LSPClient (store_client None) (lspServerPath sample_env) (lspServerArgs sample_env)),
        trace = []\<rparr>
     = (Inl (JsError ''Failed to close document: NotInitialized''),
        \<lparr>lspClient = Some (new_LSPClient (store_client None) (lspServerPath sample_env) (lspServerArgs sample_env)),
         trace = [Log Debug, Call (CloseDocument ''file:///project/a.hs''), Log LogError]\<rparr>)
   \<and> get_diagnostics (store_client None) sample_env None
       \<lparr>lspClient = Some (new_LSPClient (store_client None) (lspServerPath sample_env) (lspServerArgs sample_env)),
        trace = []\<rparr>
     = (Inr \<lparr>content = [Stringify (JObj [])]\<rparr>,
        \<lparr>lspClient = Some (new_LSPClient (store_client None) (lspServerPath sample_env) (lspServerArgs sample_env)),
         trace = [Log Debug]\<rparr>)"
  by (simp add: close_document_def get_diagnostics_def prog_defs store_client_def sample_env_def
      createFileUri_def close_uri_def failure_error_def Let_def)

text \<open>
  C1, amended. Each of the seven handlers \<^verbatim>\<open>get_info_on_location\<close>, \<^verbatim>\<open>get_completions\<close>,
  \<^verbatim>\<open>get_code_actions\<close>, \<^verbatim>\<open>restart_lsp_server\<close>, \<^verbatim>\<open>open_document\<close>,
  \<^verbatim>\<open>close_document\<close> and \<^verbatim>\<open>get_diagnostics\<close>, run while the handlers' client is
  \<^verbatim>\<open>null\<close>, throws the error "LSP server not started. Call start_lsp first with a root
  directory." for every argument. The run adds at most one debug log line to the trace:
  no file is read and no client method is called. The guard accepts every client that
  exists, initialized or not.
\<close>

theorem handlers_fail_without_client:
  "get_info_on_location L E fp lang ln col \<lparr>lspClient = None, trace = t\<rparr>
     = (Inl (JsError not_started_message), \<lparr>lspClient = None, trace = t @ [Log Debug]\<rparr>)
   \<and> get_completions L E fp lang ln col \<lparr>lspClient = None, trace = t\<rparr>
     = (Inl (JsError not_started_message), \<lparr>lspClient = None, trace = t @ [Log Debug]\<rparr>)
   \<and> get_code_actions L E fp lang sl sc el ec \<lparr>lspClient = None, trace = t\<rparr>
     = (Inl (JsError not_started_message), \<lparr>lspClient = None, trace = t @ [Log Debug]\<rparr>)
   \<and> restart_lsp_server L E root_dir \<lparr>lspClient = None, trace = t\<rparr>
     = (Inl (JsError not_started_message), \<lparr>lspClient = None, trace = t\<rparr>)
   \<and> open_document L E fp lang \<lparr>lspClient = None, trace = t\<rparr>
     = (Inl (JsError not_started_message), \<lparr>lspClient = None, trace = t @ [Log Debug]\<rparr>)
   \<and> close_document L E fp \<lparr>lspClient = None, trace = t\<rparr>
     = (Inl (JsError not_started_message), \<lparr>lspClient = None, trace = t @ [Log Debug]\<rparr>)
   \<and> get_diagnostics L E file_path \<lparr>lspClient = None, trace = t\<rparr>
     = (Inl (JsError not_started_message), \<lparr>lspClient = None, trace = t\<rparr>)
   \<and> checkLspClientInitialized \<lparr>lspClient = Some c, trace = t\<rparr>
     = (Inr (), \<lparr>lspClient = Some c, trace = t\<rparr>)"
  by (simp add: get_info_on_location_def get_completions_def get_code_actions_def
      restart_lsp_server_def open_document_def close_document_def get_diagnostics_def prog_defs)

text \<open>
  C9. \<^verbatim>\<open>start_lsp\<close> run while the handlers' client is \<^verbatim>\<open>null\<close>: the handler constructs
  a client and hands it to \<^verbatim>\<open>setLspClient\<close>, but \<^verbatim>\<open>initialize\<close> is then read from
  the handlers' own parameter, which is still \<^verbatim>\<open>null\<close>. For every client class,
  environment and argument the call throws "Failed to start LSP server: Cannot read
  properties of null (reading 'initialize')", and no \<^verbatim>\<open>initialize\<close> call is made.
\<close>

theorem start_lsp_without_client_fails:
  "start_lsp L E root_dir \<lparr>lspClient = None, trace = t\<rparr> =
     (Inl (JsError (''Failed to start LSP server: '' @ null_property_message ''initialize'')),
      \<lparr>lspClient = None,
       trace = t @ [Log Info, SetRootDir (js_or root_dir (rootDir E)),
                    NewLSPClient (lspServerPath E) (lspServerArgs E),
                    SetLspClient (new_LSPClient L (lspServerPath E) (lspServerArgs E)),
                    Log LogError]\<rparr>)"
  by (simp add: start_lsp_def prog_defs Let_def)

text \<open>
  C10. \<^verbatim>\<open>set_log_level\<close> succeeds for every level and every state of the run, whether
  the client is \<^verbatim>\<open>null\<close> or not: it returns "Log level set to: " followed by the level,
  leaves the client as it is, and adds the single event \<^verbatim>\<open>setLogLevel(level)\<close> to the
  trace.
\<close>

theorem set_log_level_succeeds:
  "set_log_level level s =
     (Inr \<lparr>content = [Text (''Log level set to: '' @ level)]\<rparr>,
      s\<lparr>trace := trace s @ [SetLogLevel level]\<rparr>)"
  by (simp add: set_log_level_def prog_defs)

subsection \<open>Positions\<close>

lemma to_double_exact: "\<bar>n\<bar> \<le> 2 ^ 53 \<Longrightarrow> to_double n = n"
  by (simp add: to_double_def)

lemma js_minus_exact: "\<bar>a - b\<bar> \<le> 2 ^ 53 \<Longrightarrow> js_minus a b = a - b"
  by (simp add: js_minus_def to_double_def)

text \<open>The three handlers from the point where the file is read and the document open.\<close>

lemma get_info_on_location_run:
  assumes "readFile E fp = Inr txt"
    and "openDocument L (createFileUri E fp) txt lang c = (Inr (), c1)"
    and "getInfoOnLocation L (createFileUri E fp) \<lparr>line = js_minus ln 1, character = js_minus col 1\<rparr> c1 = (r, c2)"
  shows "get_info_on_location L E fp lang ln col \<lparr>lspClient = Some c, trace = t\<rparr> =
     (case r of
        Inl e \<Rightarrow>
          (Inl e, \<lparr>lspClient = Some c2,
                   trace = t @ [Log Debug, ReadFile fp, Call (OpenDocument (createFileUri E fp) txt lang),
                     Call (GetInfoOnLocation (createFileUri E fp) \<lparr>line = js_minus ln 1, character = js_minus col 1\<rparr>)]\<rparr>)
      | Inr info \<Rightarrow>
          (Inr \<lparr>content = [Text info]\<rparr>,
           \<lparr>lspClient = Some c2,
            trace = t @ [Log Debug, ReadFile fp, Call (OpenDocument (createFileUri E fp) txt lang),
              Call (GetInfoOnLocation (createFileUri E fp) \<lparr>line = js_minus ln 1, character = js_minus col 1\<rparr>),
              Log Debug]\<rparr>))"
  using assms by (cases r) (simp_all add: get_info_on_location_def prog_defs Let_def)

lemma get_completions_run:
  assumes "readFile E fp = Inr txt"
    and "openDocument L (createFileUri E fp) txt lang c = (Inr (), c1)"
    and "getCompletion L (createFileUri E fp) \<lparr>line = js_minus ln 1, character = js_minus col 1\<rparr> c1 = (r, c2)"
  shows "get_completions L E fp lang ln col \<lparr>lspClient = Some c, trace = t\<rparr> =
     (case r of
        Inl e \<Rightarrow>
          (Inl e, \<lparr>lspClient = Some c2,
                   trace = t @ [Log Debug, ReadFile fp, Call (OpenDocument (createFileUri E fp) txt lang),
                     Call (GetCompletion (createFileUri E fp) \<lparr>line = js_minus ln 1, character = js_minus col 1\<rparr>)]\<rparr>)
      | Inr completions \<Rightarrow>
          (Inr \<lparr>content = [Stringify (JArr completions)]\<rparr>,
           \<lparr>lspClient = Some c2,
            trace = t @ [Log Debug, ReadFile fp, Call (OpenDocument (createFileUri E fp) txt lang),
              Call (GetCompletion (createFileUri E fp) \<lparr>line = js_minus ln 1, character = js_minus col 1\<rparr>),
              Log Debug]\<rparr>))"
  using assms by (cases r) (simp_all add: get_completions_def prog_defs Let_def)

lemma get_code_actions_run:
  assumes "readFile E fp = Inr txt"
    and "openDocument L (createFileUri E fp) txt lang c = (Inr (), c1)"
    and "getCodeActions L (createFileUri E fp)
           \<lparr>range_start = \<lparr>line = js_minus sl 1, character = js_minus sc 1\<rparr>,
            range_end = \<lparr>line = js_minus el 1, character = js_minus ec 1\<rparr>\<rparr> c1 = (r, c2)"
  shows "get_code_actions L E fp lang sl sc el ec \<lparr>lspClient = Some c, trace = t\<rparr> =
     (case r of
        Inl e \<Rightarrow>
          (Inl e, \<lparr>lspClient = Some c2,
                   trace = t @ [Log Debug, ReadFile fp, Call (OpenDocument (createFileUri E fp) txt lang),
                     Call (GetCodeActions (createFileUri E fp)
                       \<lparr>range_start = \<lparr>line = js_minus sl 1, character = js_minus sc 1\<rparr>,
                        range_end = \<lparr>line = js_minus el 1, character = js_minus ec 1\<rparr>\<rparr>)]\<rparr>)
      | Inr codeActions \<Rightarrow>
          (Inr \<lparr>content = [Stringify (JArr codeActions)]\<rparr>,
           \<lparr>lspClient = Some c2,
            trace = t @ [Log Debug, ReadFile fp, Call (OpenDocument (createFileUri E fp) txt lang),
              Call (GetCodeActions (createFileUri E fp)
                \<lparr>range_start = \<lparr>line = js_minus sl 1, character = js_minus sc 1\<rparr>,
                 range_end = \<lparr>line = js_minus el 1, character = js_minus ec 1\<rparr>\<rparr>),
              Log Debug]\<rparr>))"
  using assms by (cases r) (simp_all add: get_code_actions_def prog_defs Let_def)

text \<open>
  C2, as stated, fails: the handler subtracts on doubles, and from \<open>2 ^ 53\<close> up a
  double minus one is not always the number minus exactly one. For line \<open>10 ^ 16\<close> the
  client, which records what it receives, is asked about line \<open>10 ^ 16\<close> itself.
\<close>

theorem large_line_not_shifted_counterexample:
  "get_info_on_location recording_client sample_env ''/project/a.hs'' ''haskell'' 10000000000000000 5
       \<lparr>lspClient = Some [], trace = []\<rparr>
     = (Inr \<lparr>content = [Text []]\<rparr>,
        \<lparr>lspClient = Some [OpenDocument ''file:///project/a.hs'' ''main = print 1'' ''haskell'',
                            GetInfoOnLocation ''file:///project/a.hs'' \<lparr>line = 10000000000000000, character = 4\<rparr>],
         trace = [Log Debug, ReadFile ''/project/a.hs'',
                  Call (OpenDocument ''file:///project/a.hs'' ''main = print 1'' ''haskell''),
                  Call (GetInfoOnLocation ''file:///project/a.hs'' \<lparr>line = 10000000000000000, character = 4\<rparr>),
                  Log Debug]\<rparr>)"
proof -
  have l: "js_minus 10000000000000000 1 = 10000000000000000"
    unfolding js_minus_def by code_simp
  have c: "js_minus 5 1 = 4"
    by (simp add: js_minus_def to_double_def)
  show ?thesis
    by (simp add: get_info_on_location_def prog_defs recording_client_def sample_env_def
        createFileUri_def Let_def l c)
qed

text \<open>
  C2, amended. When the file can be read and \<^verbatim>\<open>openDocument\<close> succeeds,
  \<^verbatim>\<open>get_info_on_location\<close>, \<^verbatim>\<open>get_completions\<close> and \<^verbatim>\<open>get_code_actions\<close> return what
  the client's \<^verbatim>\<open>getInfoOnLocation\<close>, \<^verbatim>\<open>getCompletion\<close> and \<^verbatim>\<open>getCodeActions\<close> give at
  the position whose line and column are the caller's values minus one as JavaScript
  subtracts (for code actions: all four of start line, start column, end line and end
  column), and leave the client in the state that call leaves it in; nothing else is done
  to the coordinates. For an integer \<open>v\<close> with \<open>\<bar>v - 1\<bar> \<le> 2 ^ 53\<close> the value passed is exactly
  \<open>v - 1\<close>.
\<close>

theorem positions_passed_to_client:
  assumes "readFile E fp = Inr txt"
    and "openDocument L (createFileUri E fp) txt lang c = (Inr (), c1)"
  shows
   "get_info_on_location L E fp lang ln col \<lparr>lspClient = Some c, trace = t\<rparr> =
      (case getInfoOnLocation L (createFileUri E fp) \<lparr>line = js_minus ln 1, character = js_minus col 1\<rparr> c1 of
         (Inl e, c2) \<Rightarrow>
           (Inl e, \<lparr>lspClient = Some c2,
                    trace = t @ [Log Debug, ReadFile fp, Call (OpenDocument (createFileUri E fp) txt lang),
                      Call (GetInfoOnLocation (createFileUri E fp) \<lparr>line = js_minus ln 1, character = js_minus col 1\<rparr>)]\<rparr>)
       | (Inr info, c2) \<Rightarrow>
           (Inr \<lparr>content = [Text info]\<rparr>,
            \<lparr>lspClient = Some c2,
             trace = t @ [Log Debug, ReadFile fp, Call (OpenDocument (createFileUri E fp) txt lang),
               Call (GetInfoOnLocation (createFileUri E fp) \<lparr>line = js_minus ln 1, character = js_minus col 1\<rparr>),
               Log Debug]\<rparr>))
    \<and> get_completions L E fp lang ln col \<lparr>lspClient = Some c, trace = t\<rparr> =
      (case getCompletion L (createFileUri E fp) \<lparr>line = js_minus ln 1, character = js_minus col 1\<rparr> c1 of
         (Inl e, c2) \<Rightarrow>
           (Inl e, \<lparr>lspClient = Some c2,
                    trace = t @ [Log Debug, ReadFile fp, Call (OpenDocument (createFileUri E fp) txt lang),
                      Call (GetCompletion (createFileUri E fp) \<lparr>line = js_minus ln 1, character = js_minus col 1\<rparr>)]\<rparr>)
       | (Inr completions, c2) \<Rightarrow>
           (Inr \<lparr>content = [Stringify (JArr completions)]\<rparr>,
            \<lparr>lspClient = Some c2,
             trace = t @ [Log Debug, ReadFile fp, Call (OpenDocument (createFileUri E fp) txt lang),
               Call (GetCompletion (createFileUri E fp) \<lparr>line = js_minus ln 1, character = js_minus col 1\<rparr>),
               Log Debug]\<rparr>))
    \<and> get_code_actions L E fp lang sl sc el ec \<lparr>lspClient = Some c, trace = t\<rparr> =
      (case getCodeActions L (createFileUri E fp)
              \<lparr>range_start = \<lparr>line = js_minus sl 1, character = js_minus sc 1\<rparr>,
               range_end = \<lparr>line = js_minus el 1, character = js_minus ec 1\<rparr>\<rparr> c1 of
         (Inl e, c2) \<Rightarrow>
           (Inl e, \<lparr>lspClient = Some c2,
                    trace = t @ [Log Debug, ReadFile fp, Call (OpenDocument (createFileUri E fp) txt lang),
                      Call (GetCodeActions (createFileUri E fp)
                        \<lparr>range_start = \<lparr>line = js_minus sl 1, character = js_minus sc 1\<rparr>,
                         range_end = \<lparr>line = js_minus el 1, character = js_minus ec 1\<rparr>\<rparr>)]\<rparr>)
       | (Inr codeActions, c2) \<Rightarrow>
           (Inr \<lparr>content = [Stringify (JArr codeActions)]\<rparr>,
            \<lparr>lspClient = Some c2,
             trace = t @ [Log Debug, ReadFile fp, Call (OpenDocument (createFileUri E fp) txt lang),
               Call (GetCodeActions (createFileUri E fp)
                 \<lparr>range_start = \<lparr>line = js_minus sl 1, character = js_minus sc 1\<rparr>,
                  range_end = \<lparr>line = js_minus el 1, character = js_minus ec 1\<rparr>\<rparr>),
               Log Debug]\<rparr>))
    \<and> (\<bar>v - 1\<bar> \<le> 2 ^ 53 \<longrightarrow> js_minus v 1 = v - 1)"
proof -
  obtain r1 c2 where g1: "getInfoOnLocation L (createFileUri E fp)
      \<lparr>line = js_minus ln 1, character = js_minus col 1\<rparr> c1 = (r1, c2)"
    by (cases "getInfoOnLocation L (createFileUri E fp) \<lparr>line = js_minus ln 1, character = js_minus col 1\<rparr> c1") auto
  obtain r2 c3 where g2: "getCompletion L (createFileUri E fp)
      \<lparr>line = js_minus ln 1, character = js_minus col 1\<rparr> c1 = (r2, c3)"
    by (cases "getCompletion L (createFileUri E fp) \<lparr>line = js_minus ln 1, character = js_minus col 1\<rparr> c1") auto
  obtain r3 c4 where g3: "getCodeActions L (createFileUri E fp)
      \<lparr>range_start = \<lparr>line = js_minus sl 1, character = js_minus sc 1\<rparr>,
       range_end = \<lparr>line = js_minus el 1, character = js_minus ec 1\<rparr>\<rparr> c1 = (r3, c4)"
    by (cases "getCodeActions L (createFileUri E fp)
      \<lparr>range_start = \<lparr>line = js_minus sl 1, character = js_minus sc 1\<rparr>,
       range_end = \<lparr>line = js_minus el 1, character = js_minus ec 1\<rparr>\<rparr> c1") auto
  have p1: "get_info_on_location L E fp lang ln col \<lparr>lspClient = Some c, trace = t\<rparr> =
      (case getInfoOnLocation L (createFileUri E fp) \<lparr>line = js_minus ln 1, character = js_minus col 1\<rparr> c1 of
         (Inl e, c2) \<Rightarrow>
           (Inl e, \<lparr>lspClient = Some c2,
                    trace = t @ [Log Debug, ReadFile fp, Call (OpenDocument (createFileUri E fp) txt lang),
                      Call (GetInfoOnLocation (createFileUri E fp) \<lparr>line = js_minus ln 1, character = js_minus col 1\<rparr>)]\<rparr>)
       | (Inr info, c2) \<Rightarrow>
           (Inr \<lparr>content = [Text info]\<rparr>,
            \<lparr>lspClient = Some c2,
             trace = t @ [Log Debug, ReadFile fp, Call (OpenDocument (createFileUri E fp) txt lang),
               Call (GetInfoOnLocation (createFileUri E fp) \<lparr>line = js_minus ln 1, character = js_minus col 1\<rparr>),
               Log Debug]\<rparr>))"
    unfolding get_info_on_location_run [OF assms g1] g1 by (cases r1) simp_all
  have p2: "get_completions L E fp lang ln col \<lparr>lspClient = Some c, trace = t\<rparr> =
      (case getCompletion L (createFileUri E fp) \<lparr>line = js_minus ln 1, character = js_minus col 1\<rparr> c1 of
         (Inl e, c2) \<Rightarrow>
           (Inl e, \<lparr>lspClient = Some c2,
                    trace = t @ [Log Debug, ReadFile fp, Call (OpenDocument (createFileUri E fp) txt lang),
                      Call (GetCompletion (createFileUri E fp) \<lparr>line = js_minus ln 1, character = js_minus col 1\<rparr>)]\<rparr>)
       | (Inr completions, c2) \<Rightarrow>
           (Inr \<lparr>content = [Stringify (JArr completions)]\<rparr>,
            \<lparr>lspClient = Some c2,
             trace = t @ [Log Debug, ReadFile fp, Call (OpenDocument (createFileUri E fp) txt lang),
               Call (GetCompletion (createFileUri E fp) \<lparr>line = js_minus ln 1, character = js_minus col 1\<rparr>),
               Log Debug]\<rparr>))"
    unfolding get_completions_run [OF assms g2] g2 by (cases r2) simp_all
  have p3: "get_code_actions L E fp lang sl sc el ec \<lparr>lspClient = Some c, trace = t\<rparr> =
      (case getCodeActions L (createFileUri E fp)
              \<lparr>range_start = \<lparr>line = js_minus sl 1, character = js_minus sc 1\<rparr>,
               range_end = \<lparr>line = js_minus el 1, character = js_minus ec 1\<rparr>\<rparr> c1 of
         (Inl e, c2) \<Rightarrow>
           (Inl e, \<lparr>lspClient = Some c2,
                    trace = t @ [Log Debug, ReadFile fp, Call (OpenDocument (createFileUri E fp) txt lang),
                      Call (GetCodeActions (createFileUri E fp)
                        \<lparr>range_start = \<lparr>line = js_minus sl 1, character = js_minus sc 1\<rparr>,
                         range_end = \<lparr>line = js_minus el 1, character = js_minus ec 1\<rparr>\<rparr>)]\<rparr>)
       | (Inr codeActions, c2) \<Rightarrow>
           (Inr \<lparr>content = [Stringify (JArr codeActions)]\<rparr>,
            \<lparr>lspClient = Some c2,
             trace = t @ [Log Debug, ReadFile fp, Call (OpenDocument (createFileUri E fp) txt lang),
               Call (GetCodeActions (createFileUri E fp)
                 \<lparr>range_start = \<lparr>line = js_minus sl 1, character = js_minus sc 1\<rparr>,
                  range_end = \<lparr>line = js_minus el 1, character = js_minus ec 1\<rparr>\<rparr>),
               Log Debug]\<rparr>))"
    unfolding get_code_actions_run [OF assms g3] g3 by (cases r3) simp_all
  have p4: "\<bar>v - 1\<bar> \<le> 2 ^ 53 \<longrightarrow> js_minus v 1 = v - 1"
    by (simp add: js_minus_exact)
  from p1 p2 p3 p4 show ?thesis by blast
qed

theorem positions_passed_to_client_witness:
  "lspClient (snd (get_info_on_location recording_client sample_env ''/project/a.hs'' ''haskell'' 3 5
       \<lparr>lspClient = Some [], trace = []\<rparr>))
     = Some [OpenDocument ''file:///project/a.hs'' ''main = print 1'' ''haskell'',
             GetInfoOnLocation ''file:///project/a.hs'' \<lparr>line = 2, character = 4\<rparr>]
   \<and> lspClient (snd (get_completions recording_client sample_env ''/project/a.hs'' ''haskell'' 3 5
       \<lparr>lspClient = Some [], trace = []\<rparr>))
     = Some [OpenDocument ''file:///project/a.hs'' ''main = print 1'' ''haskell'',
             GetCompletion ''file:///project/a.hs'' \<lparr>line = 2, character = 4\<rparr>]
   \<and> lspClient (snd (get_code_actions recording_client sample_env ''/project/a.hs'' ''haskell'' 3 5 4 1
       \<lparr>lspClient = Some [], trace = []\<rparr>))
     = Some [OpenDocument ''file:///project/a.hs'' ''main = print 1'' ''haskell'',
             GetCodeActions ''file:///project/a.hs''
               \<lparr>range_start = \<lparr>line = 2, character = 4\<rparr>, range_end = \<lparr>line = 3, character = 0\<rparr>\<rparr>]"
proof -
  have rf: "readFile sample_env ''/project/a.hs'' = Inr ''main = print 1''"
    by (simp add: sample_env_def)
  have uri: "createFileUri sample_env ''/project/a.hs'' = ''file:///project/a.hs''"
    by (simp add: createFileUri_def sample_env_def)
  have od: "openDocument recording_client (createFileUri sample_env ''/project/a.hs'')
              ''main = print 1'' ''haskell'' []
            = (Inr (), [OpenDocument ''file:///project/a.hs'' ''main = print 1'' ''haskell''])"
    by (simp add: uri recording_client_def)
  have sub: "js_minus 3 1 = 2" "js_minus 5 1 = 4" "js_minus 4 1 = 3" "js_minus 1 1 = 0"
    by (simp_all add: js_minus_exact)
  show ?thesis
    using positions_passed_to_client [OF rf od, of 3 5 "[]" 3 5 4 1 0]
    by (simp add: uri sub recording_client_def)
qed

subsection \<open>Diagnostics\<close>

lemma obj_assign_fresh: "k \<notin> fst ` set obj \<Longrightarrow> obj_assign obj k v = obj @ [(k, v)]"
  by (induction obj) auto

text \<open>On a \<^verbatim>\<open>Map\<close> (distinct keys) the loop appends the open entries in order.\<close>

lemma forEach_open_filter:
  assumes "lspClient s = Some c"
    and "distinct (map fst entries)"
    and "fst ` set obj \<inter> fst ` set entries = {}"
  shows "forEach_open L entries obj s =
     (Inr (obj @ map (\<lambda>(uri, ds). (uri, JArr ds)) (filter (\<lambda>(uri, ds). isDocumentOpen L c uri) entries)), s)"
  using assms
proof (induction entries arbitrary: obj)
  case Nil
  then show ?case by (simp add: ret_def)
next
  case (Cons e entries)
  obtain key val where e: "e = (key, val)" by (cases e)
  show ?case
  proof (cases "isDocumentOpen L c key")
    case True
    have fresh: "key \<notin> fst ` set obj" using Cons.prems(3) e by auto
    have disj: "fst ` set (obj @ [(key, JArr val)]) \<inter> fst ` set entries = {}"
      using Cons.prems(2,3) e by auto
    have "forEach_open L entries (obj @ [(key, JArr val)]) s =
        (Inr ((obj @ [(key, JArr val)]) @ map (\<lambda>(uri, ds). (uri, JArr ds))
               (filter (\<lambda>(uri, ds). isDocumentOpen L c uri) entries)), s)"
      using Cons.IH [OF Cons.prems(1) _ disj] Cons.prems(2) by simp
    then show ?thesis
      using True e Cons.prems(1) by (simp add: bind_def ask_client_def obj_assign_fresh [OF fresh])
  next
    case False
    have disj: "fst ` set obj \<inter> fst ` set entries = {}"
      using Cons.prems(3) by auto
    show ?thesis
      using False e Cons.prems(1) Cons.IH [OF Cons.prems(1) _ disj] Cons.prems(2)
      by (simp add: bind_def ask_client_def)
  qed
qed

text \<open>
  C3. \<^verbatim>\<open>get_diagnostics\<close> without a file path, on a client whose all-diagnostics
  \<^verbatim>\<open>Map\<close> has distinct keys (as every \<^verbatim>\<open>Map\<close> has): the result is the object holding
  exactly the entries of that map whose uri \<^verbatim>\<open>isDocumentOpen\<close> accepts, in the map's
  order, each with its diagnostic sequence as cached; entries of uris that are not open
  are left out. The client is unchanged.
\<close>

theorem get_diagnostics_all_only_open:
  assumes "distinct (map fst (getAllDiagnostics L c))"
  shows "get_diagnostics L E None \<lparr>lspClient = Some c, trace = t\<rparr> =
     (Inr \<lparr>content = [Stringify (JObj (map (\<lambda>(uri, ds). (uri, JArr ds))
              (filter (\<lambda>(uri, ds). isDocumentOpen L c uri) (getAllDiagnostics L c))))]\<rparr>,
      \<lparr>lspClient = Some c, trace = t @ [Log Debug]\<rparr>)"
proof -
  have "forEach_open L (getAllDiagnostics L c) [] \<lparr>lspClient = Some c, trace = t @ [Log Debug]\<rparr> =
     (Inr ([] @ map (\<lambda>(uri, ds). (uri, JArr ds))
             (filter (\<lambda>(uri, ds). isDocumentOpen L c uri) (getAllDiagnostics L c))),
      \<lparr>lspClient = Some c, trace = t @ [Log Debug]\<rparr>)"
    by (rule forEach_open_filter) (use assms in simp_all)
  then show ?thesis
    by (simp add: get_diagnostics_def prog_defs)
qed

theorem get_diagnostics_all_only_open_witness:
  "get_diagnostics (store_client None) sample_env None \<lparr>lspClient = Some busy_client, trace = []\<rparr> =
     (Inr \<lparr>content = [Stringify (JObj [(''file:///project/a.hs'', JArr [JStr ''unused import''])])]\<rparr>,
      \<lparr>lspClient = Some busy_client, trace = [Log Debug]\<rparr>)"
proof -
  have d: "distinct (map fst (getAllDiagnostics (store_client None) busy_client))"
    by (simp add: store_client_def busy_client_def)
  show ?thesis
    using get_diagnostics_all_only_open [OF d, of sample_env "[]"]
    by (simp add: store_client_def busy_client_def isOpen_def)
qed

text \<open>
  C4, as stated, fails for the empty file path: the handler tests \<^verbatim>\<open>args.file_path\<close> for
  truthiness, so the empty string takes the branch for all files. Here its uri
  \<^verbatim>\<open>file:///project\<close> is not open, and the call returns the diagnostics of the open
  documents instead of failing.
\<close>

theorem get_diagnostics_empty_path_counterexample:
  "\<not> isDocumentOpen (store_client None) busy_client (createFileUri sample_env '''')
   \<and> get_diagnostics (store_client None) sample_env (Some '''') \<lparr>lspClient = Some busy_client, trace = []\<rparr> =
     (Inr \<lparr>content = [Stringify (JObj [(''file:///project/a.hs'', JArr [JStr ''unused import''])])]\<rparr>,
      \<lparr>lspClient = Some busy_client, trace = [Log Debug]\<rparr>)"
  by (simp add: get_diagnostics_def prog_defs store_client_def busy_client_def isOpen_def
      createFileUri_def sample_env_def)

text \<open>
  C4, amended. For every non-empty file path: if its uri is not open, \<^verbatim>\<open>get_diagnostics\<close>
  throws "Failed to get diagnostics: File ... is not open. Please open the file with
  open_document before requesting diagnostics." and the client (diagnostics cache and
  document store) is unchanged; if the uri is open, it returns the object with the one
  entry of that uri and the diagnostics the client has for it. With the empty file path
  the call is the call without a file path, in every state.
\<close>

theorem get_diagnostics_for_file:
  "(fp \<noteq> [] \<longrightarrow>
      get_diagnostics L E (Some fp) \<lparr>lspClient = Some c, trace = t\<rparr> =
       (if isDocumentOpen L c (createFileUri E fp)
        then (Inr \<lparr>content = [Stringify (JObj [(createFileUri E fp, JArr (getDiagnostics L c (createFileUri E fp)))])]\<rparr>,
              \<lparr>lspClient = Some c, trace = t @ [Log Debug]\<rparr>)
        else (Inl (JsError (''Failed to get diagnostics: '' @ not_open_message fp)),
              \<lparr>lspClient = Some c, trace = t @ [Log Debug, Log LogError]\<rparr>)))
   \<and> get_diagnostics L E (Some []) s = get_diagnostics L E None s"
  by (simp add: get_diagnostics_def prog_defs Let_def)

theorem get_diagnostics_for_file_witness:
  "get_diagnostics (store_client None) sample_env (Some ''/project/b.hs'') \<lparr>lspClient = Some busy_client, trace = []\<rparr> =
     (Inl (JsError (''Failed to get diagnostics: '' @ not_open_message ''/project/b.hs'')),
      \<lparr>lspClient = Some busy_client, trace = [Log Debug, Log LogError]\<rparr>)
   \<and> get_diagnostics (store_client None) sample_env (Some ''/project/a.hs'') \<lparr>lspClient = Some busy_client, trace = []\<rparr> =
     (Inr \<lparr>content = [Stringify (JObj [(''file:///project/a.hs'', JArr [JStr ''unused import''])])]\<rparr>,
      \<lparr>lspClient = Some busy_client, trace = [Log Debug]\<rparr>)"
  using get_diagnostics_for_file [where fp = "''/project/b.hs''" and L = "store_client None"
      and E = sample_env and c = busy_client and t = "[]"]
    get_diagnostics_for_file [where fp = "''/project/a.hs''" and L = "store_client None"
      and E = sample_env and c = busy_client and t = "[]"]
  by (simp add: store_client_def busy_client_def isOpen_def diagnosticsFor_def
      createFileUri_def sample_env_def)

subsection \<open>Restart\<close>

lemma root_dir_updates_append:
  "root_dir_updates (xs @ ys) = root_dir_updates xs @ root_dir_updates ys"
  by (induction xs rule: root_dir_updates.induct) auto

lemma stored_root_dir_append:
  "stored_root_dir r0 (xs @ ys) = stored_root_dir (stored_root_dir r0 xs) ys"
  by (simp add: stored_root_dir_def root_dir_updates_append last_append)

lemma restart_lsp_server_run:
  assumes "restart L (js_or root_dir (rootDir E)) c = (r, c')"
  shows "restart_lsp_server L E root_dir \<lparr>lspClient = Some c, trace = t\<rparr> =
     (case r of
        Inl e \<Rightarrow>
          (Inl (JsError (''Failed to restart LSP server: '' @ errorMessage e)),
           \<lparr>lspClient = Some c',
            trace = t @ Log Info # (case truthy root_dir of None \<Rightarrow> [] | Some d \<Rightarrow> [SetRootDir d])
                      @ [Call (Restart (js_or root_dir (rootDir E))), Log LogError]\<rparr>)
      | Inr u \<Rightarrow>
          (Inr \<lparr>content = [Text (case truthy root_dir of
                   Some d \<Rightarrow> ''LSP server successfully restarted and initialized with root directory: '' @ d
                 | None \<Rightarrow> ''LSP server successfully restarted'')]\<rparr>,
           \<lparr>lspClient = Some c',
            trace = t @ Log Info # (case truthy root_dir of None \<Rightarrow> [] | Some d \<Rightarrow> [SetRootDir d])
                      @ [Call (Restart (js_or root_dir (rootDir E)))]\<rparr>))"
  using assms
  by (cases r; cases "truthy root_dir") (simp_all add: restart_lsp_server_def prog_defs Let_def)

text \<open>
  C5, as stated, fails twice. An empty root directory is supplied, but the handler tests
  \<^verbatim>\<open>args.root_dir\<close> for truthiness: the stored root directory stays \<^verbatim>\<open>/project\<close> and the
  client, which records what it receives, is restarted with \<^verbatim>\<open>/project\<close>. And the
  handlers restart with their own parameter \<^verbatim>\<open>rootDir\<close>, not with what is stored: after
  \<^verbatim>\<open>start_lsp\<close> has stored \<^verbatim>\<open>/other\<close>, \<^verbatim>\<open>restart_lsp_server\<close> without a root
  directory on the same handlers restarts the client with \<^verbatim>\<open>/project\<close>.
\<close>

theorem restart_root_dir_counterexample:
  "lspClient (snd (restart_lsp_server recording_client sample_env (Some '''') \<lparr>lspClient = Some [], trace = []\<rparr>))
     = Some [Restart ''/project'']
   \<and> stored_root_dir ''/project''
        (trace (snd (restart_lsp_server recording_client sample_env (Some '''') \<lparr>lspClient = Some [], trace = []\<rparr>)))
     = ''/project''
   \<and> stored_root_dir ''/project''
        (trace (snd (start_lsp recording_client sample_env (Some ''/other'') \<lparr>lspClient = Some [], trace = []\<rparr>)))
     = ''/other''
   \<and> lspClient (snd (restart_lsp_server recording_client sample_env None
        (snd (start_lsp recording_client sample_env (Some ''/other'') \<lparr>lspClient = Some [], trace = []\<rparr>))))
     = Some [Initialize ''/other'', Restart ''/project'']"
  by (simp add: restart_lsp_server_def start_lsp_def prog_defs recording_client_def js_or_def
      sample_env_def Let_def stored_root_dir_def)

text \<open>
  C5, amended. \<^verbatim>\<open>restart_lsp_server\<close> on a client, without a root directory or with the
  empty one, invokes the client's \<^verbatim>\<open>restart\<close> with the handlers' parameter \<^verbatim>\<open>rootDir\<close>,
  which is the previously stored root directory when the handlers were built from it,
  reports what \<^verbatim>\<open>restart\<close> reports, and leaves the stored root directory unchanged. With
  a non-empty root directory \<open>d\<close> it invokes \<^verbatim>\<open>restart\<close> with \<open>d\<close>, and the stored
  root directory is updated to \<open>d\<close> before the restart is performed.
\<close>

theorem restart_root_dir:
  "(root_dir = None \<or> root_dir = Some [] \<longrightarrow>
      lspClient (snd (restart_lsp_server L E root_dir \<lparr>lspClient = Some c, trace = t\<rparr>))
        = Some (snd (restart L (rootDir E) c))
      \<and> fst (restart_lsp_server L E root_dir \<lparr>lspClient = Some c, trace = t\<rparr>)
        = (case fst (restart L (rootDir E) c) of
             Inl e \<Rightarrow> Inl (JsError (''Failed to restart LSP server: '' @ errorMessage e))
           | Inr u \<Rightarrow> Inr \<lparr>content = [Text ''LSP server successfully restarted'']\<rparr>)
      \<and> stored_root_dir r0 (trace (snd (restart_lsp_server L E root_dir \<lparr>lspClient = Some c, trace = t\<rparr>)))
        = stored_root_dir r0 t
      \<and> (rootDir E = stored_root_dir r0 t \<longrightarrow>
           lspClient (snd (restart_lsp_server L E root_dir \<lparr>lspClient = Some c, trace = t\<rparr>))
             = Some (snd (restart L (stored_root_dir r0 t) c))))
   \<and> (root_dir = Some d \<and> d \<noteq> [] \<longrightarrow>
      lspClient (snd (restart_lsp_server L E root_dir \<lparr>lspClient = Some c, trace = t\<rparr>))
        = Some (snd (restart L d c))
      \<and> fst (restart_lsp_server L E root_dir \<lparr>lspClient = Some c, trace = t\<rparr>)
        = (case fst (restart L d c) of
             Inl e \<Rightarrow> Inl (JsError (''Failed to restart LSP server: '' @ errorMessage e))
           | Inr u \<Rightarrow> Inr \<lparr>content = [Text (''LSP server successfully restarted and initialized with root directory: '' @ d)]\<rparr>)
      \<and> stored_root_dir r0 (trace (snd (restart_lsp_server L E root_dir \<lparr>lspClient = Some c, trace = t\<rparr>))) = d
      \<and> take (length t + 3) (trace (snd (restart_lsp_server L E root_dir \<lparr>lspClient = Some c, trace = t\<rparr>)))
        = t @ [Log Info, SetRootDir d, Call (Restart d)])"
proof -
  obtain r c' where run: "restart L (js_or root_dir (rootDir E)) c = (r, c')"
    by (cases "restart L (js_or root_dir (rootDir E)) c") auto
  note eq = restart_lsp_server_run [OF run, of t]
  have a: "root_dir = None \<or> root_dir = Some [] \<Longrightarrow> truthy root_dir = None \<and> js_or root_dir (rootDir E) = rootDir E"
    by (auto simp: js_or_def)
  have b: "root_dir = Some d \<and> d \<noteq> [] \<Longrightarrow> truthy root_dir = Some d \<and> js_or root_dir (rootDir E) = d"
    by (auto simp: js_or_def)
  show ?thesis
  proof (intro conjI impI)
    assume h: "root_dir = None \<or> root_dir = Some []"
    from a [OF h] run have run': "restart L (rootDir E) c = (r, c')" by simp
    show "lspClient (snd (restart_lsp_server L E root_dir \<lparr>lspClient = Some c, trace = t\<rparr>))
        = Some (snd (restart L (rootDir E) c))"
      unfolding eq run' by (cases r) simp_all
    then show "lspClient (snd (restart_lsp_server L E root_dir \<lparr>lspClient = Some c, trace = t\<rparr>))
        = Some (snd (restart L (stored_root_dir r0 t) c))" if "rootDir E = stored_root_dir r0 t"
      using that by simp
    show "fst (restart_lsp_server L E root_dir \<lparr>lspClient = Some c, trace = t\<rparr>)
        = (case fst (restart L (rootDir E) c) of
             Inl e \<Rightarrow> Inl (JsError (''Failed to restart LSP server: '' @ errorMessage e))
           | Inr u \<Rightarrow> Inr \<lparr>content = [Text ''LSP server successfully restarted'']\<rparr>)"
      unfolding eq run' using a [OF h] by (cases r) simp_all
    show "stored_root_dir r0 (trace (snd (restart_lsp_server L E root_dir \<lparr>lspClient = Some c, trace = t\<rparr>)))
        = stored_root_dir r0 t"
      unfolding eq using a [OF h] by (cases r) (simp_all add: stored_root_dir_append, simp_all add: stored_root_dir_def)
  next
    assume h: "root_dir = Some d \<and> d \<noteq> []"
    from b [OF h] run have run': "restart L d c = (r, c')" by simp
    show "lspClient (snd (restart_lsp_server L E root_dir \<lparr>lspClient = Some c, trace = t\<rparr>))
        = Some (snd (restart L d c))"
      unfolding eq run' by (cases r) simp_all
    show "fst (restart_lsp_server L E root_dir \<lparr>lspClient = Some c, trace = t\<rparr>)
        = (case fst (restart L d c) of
             Inl e \<Rightarrow> Inl (JsError (''Failed to restart LSP server: '' @ errorMessage e))
           | Inr u \<Rightarrow> Inr \<lparr>content = [Text (''LSP server successfully restarted and initialized with root directory: '' @ d)]\<rparr>)"
      unfolding eq run' using b [OF h] by (cases r) simp_all
    show "stored_root_dir r0 (trace (snd (restart_lsp_server L E root_dir \<lparr>lspClient = Some c, trace = t\<rparr>))) = d"
      unfolding eq using b [OF h] by (cases r) (simp_all add: stored_root_dir_append, simp_all add: stored_root_dir_def)
    show "take (length t + 3) (trace (snd (restart_lsp_server L E root_dir \<lparr>lspClient = Some c, trace = t\<rparr>)))
        = t @ [Log Info, SetRootDir d, Call (Restart d)]"
      unfolding eq using b [OF h] by (cases r) simp_all
  qed
qed

theorem restart_root_dir_witness:
  "lspClient (snd (restart_lsp_server recording_client sample_env None \<lparr>lspClient = Some [], trace = []\<rparr>))
     = Some [Restart ''/project'']
   \<and> lspClient (snd (restart_lsp_server recording_client sample_env (Some ''/other'') \<lparr>lspClient = Some [], trace = []\<rparr>))
     = Some [Restart ''/other'']
   \<and> stored_root_dir ''/project''
        (trace (snd (restart_lsp_server recording_client sample_env (Some ''/other'') \<lparr>lspClient = Some [], trace = []\<rparr>)))
     = ''/other''"
  using restart_root_dir [of None recording_client sample_env "[]" "[]" "''/project''" "''/other''"]
    restart_root_dir [of "Some ''/other''" recording_client sample_env "[]" "[]" "''/project''" "''/other''"]
  by (simp add: sample_env_def recording_client_def)

section \<open>Properties of the client adapter\<close>

lemma didOpen_count_append:
  "didOpen_count uri (xs @ ys) = didOpen_count uri xs + didOpen_count uri ys"
  by (induction uri xs rule: didOpen_count.induct) auto

text \<open>
  C6. On an initialized client, \<open>open\<close> of a uri that is already open is a no-op. Where
  the uri is not open, \<open>open\<close> succeeds, records the document at version 1 and sends
  exactly one open notification (the count of open notifications for the uri grows by
  one); every further \<open>open\<close> of the same uri right after it, with whatever content
  and language, is a no-op: it returns the same client, so nothing more is sent, the
  version is not bumped and the document store is unchanged.
\<close>

theorem open_twice_sends_once:
  assumes "initialized c"
  shows "(isOpen c uri \<longrightarrow> open_uri c uri txt lang = Inr c)
   \<and> (\<not> isOpen c uri \<longrightarrow>
        (\<exists>c1. open_uri c uri txt lang = Inr c1
           \<and> sent c1 = sent c @ [DidOpen uri lang 1 txt]
           \<and> didOpen_count uri (sent c1) = didOpen_count uri (sent c) + 1
           \<and> map_of (documents c1) uri = Some \<lparr>languageId = lang, version = 1, snapshot = txt\<rparr>
           \<and> (\<forall>txt' lang'. open_uri c1 uri txt' lang' = Inr c1)))"
  using assms
  by (auto simp: open_uri_def isOpen_def map_add_def didOpen_count_append split: option.splits)

theorem open_twice_sends_once_witness:
  "\<exists>c1. open_uri fresh_client ''file:///project/a.hs'' ''main = print 1'' ''haskell'' = Inr c1
        \<and> sent c1 = sent fresh_client @ [DidOpen ''file:///project/a.hs'' ''haskell'' 1 ''main = print 1'']
        \<and> didOpen_count ''file:///project/a.hs'' (sent c1) = didOpen_count ''file:///project/a.hs'' (sent fresh_client) + 1
        \<and> map_of (documents c1) ''file:///project/a.hs''
            = Some \<lparr>languageId = ''haskell'', version = 1, snapshot = ''main = print 1''\<rparr>
        \<and> (\<forall>txt' lang'. open_uri c1 ''file:///project/a.hs'' txt' lang' = Inr c1)"
proof -
  have i: "initialized fresh_client"
    by (simp add: fresh_client_def)
  have n: "\<not> isOpen fresh_client ''file:///project/a.hs''"
    by (simp add: isOpen_def fresh_client_def)
  show ?thesis
    using open_twice_sends_once [OF i, of "''file:///project/a.hs''" "''main = print 1''" "''haskell''"] n
    by blast
qed

text \<open>
  C7, as stated, fails: a hover result that is not null but has null contents is
  normalised to the empty string too (the second scenario of the spec), so the output is
  not empty exactly when the result is null.
\<close>

theorem normalizeHover_empty_counterexample:
  "\<not> (\<forall>r. normalizeHover [CHR 0x0A] r = [] \<longleftrightarrow> r = None)"
proof
  assume "\<forall>r. normalizeHover [CHR 0x0A] r = [] \<longleftrightarrow> r = None"
  then have "normalizeHover [CHR 0x0A] (Some \<lparr>contents = None\<rparr>) = [] \<longleftrightarrow> Some \<lparr>contents = None\<rparr> = None"
    by blast
  then show False by simp
qed

lemma join_empty_iff:
  "join sep xs = [] \<longleftrightarrow> (\<forall>x \<in> set xs. x = []) \<and> (sep = [] \<or> length xs \<le> 1)"
  by (induction sep xs rule: join.induct) auto

lemma length_join:
  "length (join sep xs) = sum_list (map length xs) + (length xs - 1) * length sep"
  by (induction sep xs rule: join.induct) auto

lemma join_no_separator: "join [] xs = concat xs"
  by (induction "[] :: string" xs rule: join.induct) auto

text \<open>
  C7, amended. The normalised hover output is one flat string for every hover result: the
  empty string for a null result and for null contents, the value of markup content, the
  text of a marked string or code block, and for a sequence the texts of its elements in
  order with the separator between them (nothing is dropped: the lengths add up). It is
  the empty string exactly when the result is null, its contents are null, or the
  contents carry no text: an empty value, an empty marked text, or a sequence of empty
  texts that needs no non-empty separator.
\<close>

theorem normalizeHover_flat:
  "normalizeHover sep None = []
   \<and> normalizeHover sep (Some \<lparr>contents = None\<rparr>) = []
   \<and> normalizeHover sep (Some \<lparr>contents = Some (MarkupContent kind val)\<rparr>) = val
   \<and> normalizeHover sep (Some \<lparr>contents = Some (Marked (MarkedText val))\<rparr>) = val
   \<and> normalizeHover sep (Some \<lparr>contents = Some (Marked (MarkedCode lang val))\<rparr>) = val
   \<and> normalizeHover sep (Some \<lparr>contents = Some (MarkedSeq ms)\<rparr>) = join sep (map marked_text ms)
   \<and> normalizeHover [] (Some \<lparr>contents = Some (MarkedSeq ms)\<rparr>) = concat (map marked_text ms)
   \<and> length (normalizeHover sep (Some \<lparr>contents = Some (MarkedSeq ms)\<rparr>))
       = sum_list (map (\<lambda>m. length (marked_text m)) ms) + (length ms - 1) * length sep
   \<and> (normalizeHover sep r = [] \<longleftrightarrow>
        r = None
        \<or> (\<exists>h. r = Some h \<and>
              (contents h = None
               \<or> (\<exists>k. contents h = Some (MarkupContent k []))
               \<or> (\<exists>m. contents h = Some (Marked m) \<and> marked_text m = [])
               \<or> (\<exists>ms. contents h = Some (MarkedSeq ms)
                     \<and> (\<forall>m \<in> set ms. marked_text m = []) \<and> (sep = [] \<or> length ms \<le> 1)))))"
proof -
  have iff: "normalizeHover sep r = [] \<longleftrightarrow>
        r = None
        \<or> (\<exists>h. r = Some h \<and>
              (contents h = None
               \<or> (\<exists>k. contents h = Some (MarkupContent k []))
               \<or> (\<exists>m. contents h = Some (Marked m) \<and> marked_text m = [])
               \<or> (\<exists>ms. contents h = Some (MarkedSeq ms)
                     \<and> (\<forall>m \<in> set ms. marked_text m = []) \<and> (sep = [] \<or> length ms \<le> 1))))"
  proof (cases r)
    case None
    then show ?thesis by simp
  next
    case (Some h)
    show ?thesis
    proof (cases "contents h")
      case None
      with Some show ?thesis by simp
    next
      case (Some ct)
      with \<open>r = Some h\<close> show ?thesis
        by (cases ct) (auto simp: join_empty_iff)
    qed
  qed
  have len: "length (normalizeHover sep (Some \<lparr>contents = Some (MarkedSeq ms)\<rparr>))
       = sum_list (map (\<lambda>m. length (marked_text m)) ms) + (length ms - 1) * length sep"
    by (simp add: length_join comp_def)
  have cat: "normalizeHover [] (Some \<lparr>contents = Some (MarkedSeq ms)\<rparr>) = concat (map marked_text ms)"
    by (simp add: join_no_separator)
  from iff len cat show ?thesis by simp
qed

theorem normalizeHover_flat_witness:
  "normalizeHover [CHR 0x0A] (Some \<lparr>contents = Some (MarkedSeq [MarkedCode ''haskell'' ''main :: IO ()'', MarkedText ''Defined in Main''])\<rparr>)
     = ''main :: IO ()'' @ [CHR 0x0A] @ ''Defined in Main''
   \<and> normalizeHover [CHR 0x0A] (Some \<lparr>contents = Some (MarkedSeq [MarkedText [], MarkedText []])\<rparr>) \<noteq> []
   \<and> normalizeHover [CHR 0x0A] (Some \<lparr>contents = Some (MarkupContent ''markdown'' [])\<rparr>) = []"
  using normalizeHover_flat [of "[CHR 0x0A]" "''markdown''" "[]" "''haskell''" "[MarkedCode ''haskell'' ''main :: IO ()'', MarkedText ''Defined in Main'']" "Some \<lparr>contents = Some (MarkedSeq [MarkedText [], MarkedText []])\<rparr>"]
  by simp

subsection \<open>Message framer\<close>

text \<open>Appending bytes does not change a frame already decoded, nor a framing error.\<close>

lemma split_header_append:
  "split_header xs = Some (h, r) \<Longrightarrow> split_header (xs @ nxt) = Some (h, r @ nxt)"
  by (induction xs arbitrary: h rule: split_header.induct) (auto split: if_splits)

lemma decode_one_Frame_append:
  "decode_one buf = Frame body rest \<Longrightarrow> decode_one (buf @ nxt) = Frame body (rest @ nxt)"
  by (auto simp: decode_one_def split_header_append split: option.splits if_splits)

lemma decode_one_Malformed_append:
  "decode_one buf = Malformed \<Longrightarrow> decode_one (buf @ nxt) = Malformed"
  by (auto simp: decode_one_def split_header_append split: option.splits if_splits)

lemma drain_error_buffer: "drain buf = (ms, b, True) \<Longrightarrow> b = []"
proof (induction buf arbitrary: ms rule: drain.induct)
  case (1 buf)
  show ?case
  proof (cases "decode_one buf")
    case NeedMore
    with "1.prems" show ?thesis by (simp add: drain.simps [of buf])
  next
    case Malformed
    with "1.prems" show ?thesis by (simp add: drain.simps [of buf])
  next
    case (Frame body rest)
    with "1.prems" "1.IH" [OF Frame] show ?thesis
      by (auto simp: drain.simps [of buf] split: prod.splits)
  qed
qed

lemma drain_append:
  "drain buf = (ms, b, err) \<Longrightarrow>
   drain (buf @ nxt) =
     (if err then (ms, [], True)
      else case drain (b @ nxt) of (ms', b', err') \<Rightarrow> (ms @ ms', b', err'))"
proof (induction buf arbitrary: ms rule: drain.induct)
  case (1 buf)
  show ?case
  proof (cases "decode_one buf")
    case NeedMore
    with "1.prems" show ?thesis by (auto simp: drain.simps [of buf] split: prod.splits)
  next
    case Malformed
    with "1.prems" decode_one_Malformed_append [OF Malformed, of nxt] show ?thesis
      by (auto simp: drain.simps [of buf] drain.simps [of "buf @ nxt"])
  next
    case (Frame body rest)
    obtain ms1 where d: "drain rest = (ms1, b, err)" and ms: "ms = body # ms1"
      using "1.prems" Frame by (auto simp: drain.simps [of buf] split: prod.splits)
    have "drain (buf @ nxt) = (case drain (rest @ nxt) of (ms', b', e') \<Rightarrow> (body # ms', b', e'))"
      using decode_one_Frame_append [OF Frame, of nxt] by (simp add: drain.simps [of "buf @ nxt"])
    with "1.IH" [OF Frame d] ms show ?thesis
      by (auto split: prod.splits)
  qed
qed

lemma drain_drained: "drain buf = (ms, b, False) \<Longrightarrow> drain b = ([], b, False)"
proof (induction buf arbitrary: ms rule: drain.induct)
  case (1 buf)
  show ?case
  proof (cases "decode_one buf")
    case NeedMore
    then have "drain buf = ([], buf, False)" by (simp add: drain.simps [of buf])
    with "1.prems" show ?thesis by simp
  next
    case Malformed
    with "1.prems" show ?thesis by (simp add: drain.simps [of buf])
  next
    case (Frame body rest)
    with "1.prems" "1.IH" [OF Frame] show ?thesis
      by (auto simp: drain.simps [of buf] split: prod.splits)
  qed
qed

lemma drained_feed: "drained (snd (feed f chunk))"
proof (cases "corrupted f")
  case True
  then show ?thesis by (simp add: feed_def drained_def)
next
  case False
  obtain ms b err where d: "drain (buffer f @ chunk) = (ms, b, err)"
    by (cases "drain (buffer f @ chunk)") auto
  show ?thesis
    using False d drain_drained [of "buffer f @ chunk" ms b]
    by (cases err) (auto simp: feed_def drained_def)
qed

lemma feed_append:
  assumes "drained f"
  shows "feed f (a @ b) =
     (case feed f a of (ms, f') \<Rightarrow> (case feed f' b of (ms', f'') \<Rightarrow> (ms @ ms', f'')))"
proof (cases "corrupted f")
  case True
  then show ?thesis by (simp add: feed_def)
next
  case False
  obtain ms b1 err where d: "drain (buffer f @ a) = (ms, b1, err)"
    by (cases "drain (buffer f @ a)") auto
  show ?thesis
  proof (cases err)
    case True
    with d drain_error_buffer [of "buffer f @ a" ms b1] have "b1 = []" by simp
    with False d True drain_append [OF d, of b] show ?thesis
      by (simp add: feed_def)
  next
    case err: False
    with False d drain_append [OF d, of b] show ?thesis
      by (auto simp: feed_def split: prod.splits)
  qed
qed

lemma feed_empty: "drained f \<Longrightarrow> feed f [] = ([], f)"
  by (auto simp: feed_def drained_def)

lemma feed_all_concat: "drained f \<Longrightarrow> feed_all f chunks = feed f (concat chunks)"
proof (induction chunks arbitrary: f)
  case Nil
  then show ?case by (simp add: feed_empty)
next
  case (Cons chunk chunks)
  obtain ms f' where f1: "feed f chunk = (ms, f')"
    by (cases "feed f chunk") auto
  have "drained f'" using drained_feed [of f chunk] f1 by simp
  then have "feed_all f' chunks = feed f' (concat chunks)" by (rule Cons.IH)
  with f1 feed_append [OF Cons.prems, of chunk "concat chunks"]
  show ?case by simp
qed

lemma drained_new: "drained new_framer"
  by (simp add: drained_def new_framer_def drain.simps [of "[]"] decode_one_def)


lemma digit_val_digit_char: "d < 10 \<Longrightarrow> digit_val (digit_char d) = Some d"
  by (simp add: digit_val_def digit_char_def)

lemma parse_digits_append:
  "parse_digits acc (xs @ ys) =
     (case parse_digits acc xs of None \<Rightarrow> None | Some a \<Rightarrow> parse_digits a ys)"
  by (induction xs arbitrary: acc) (auto split: option.splits)

lemma parse_digits_show_nat: "parse_digits 0 (show_nat n) = Some n"
proof (induction n rule: show_nat.induct)
  case (1 n)
  show ?case
  proof (cases "n < 10")
    case True
    then show ?thesis by (simp add: show_nat.simps [of n] digit_val_digit_char)
  next
    case False
    with "1.IH" show ?thesis
      by (simp add: show_nat.simps [of n] parse_digits_append digit_val_digit_char)
  qed
qed

lemma show_nat_not_empty: "show_nat n \<noteq> []"
  by (simp add: show_nat.simps [of n])

lemma digit_char_not_CR: "d < 10 \<Longrightarrow> digit_char d \<noteq> CHR 0x0D"
proof
  assume d: "d < 10" and "digit_char d = CHR 0x0D"
  then have "digit_val (digit_char d) = digit_val (CHR 0x0D)" by simp
  with d show False by (simp add: digit_val_digit_char) (simp add: digit_val_def)
qed

lemma show_nat_no_CR: "CHR 0x0D \<notin> set (show_nat n)"
proof (induction n rule: show_nat.induct)
  case (1 n)
  show ?case
  proof (cases "n < 10")
    case True
    then show ?thesis using digit_char_not_CR [of n] by (auto simp: show_nat.simps [of n])
  next
    case False
    with "1.IH" digit_char_not_CR [of "n mod 10"] show ?thesis
      by (auto simp: show_nat.simps [of n])
  qed
qed

lemma split_header_skip:
  "x \<noteq> CHR 0x0D \<Longrightarrow> split_header (x # xs) = map_option (\<lambda>(h, r). (x # h, r)) (split_header xs)"
  by (cases "x # xs" rule: split_header.cases) (auto simp: header_end_def)

lemma split_header_at_end:
  "CHR 0x0D \<notin> set h \<Longrightarrow> split_header (h @ header_end @ r) = Some (h, r)"
proof (induction h)
  case Nil
  show ?case by (simp add: header_end_def)
next
  case (Cons x h)
  then have "x \<noteq> CHR 0x0D" and "split_header (h @ header_end @ r) = Some (h, r)"
    by auto
  then show ?case by (simp add: split_header_skip)
qed

lemma parse_content_length_header:
  "parse_content_length (header_name @ show_nat n) = Some n"
  by (simp add: parse_content_length_def show_nat_not_empty parse_digits_show_nat)

lemma decode_one_encode: "decode_one (encode body @ rest) = Frame body rest"
proof -
  have "CHR 0x0D \<notin> set (header_name @ show_nat (length body))"
    by (simp add: show_nat_no_CR) (simp add: header_name_def)
  then have "split_header ((header_name @ show_nat (length body)) @ header_end @ (body @ rest))
      = Some (header_name @ show_nat (length body), body @ rest)"
    by (rule split_header_at_end)
  then show ?thesis
    by (simp add: decode_one_def encode_def parse_content_length_header)
qed

lemma drain_encoded: "drain (concat (map encode bodies)) = (bodies, [], False)"
proof (induction bodies)
  case Nil
  show ?case by (simp add: drain.simps [of "[]"] decode_one_def)
next
  case (Cons body bodies)
  then show ?case
    by (simp add: drain.simps [of "encode body @ concat (map encode bodies)"] decode_one_encode)
qed

lemma feed_encoded: "feed new_framer (concat (map encode bodies)) = (bodies, new_framer)"
  by (simp add: feed_def new_framer_def drain_encoded)

text \<open>
  C8. Feeding a new framer the chunks of any partition of a byte sequence, one at a time,
  yields the same messages, in the same order, and leaves the framer in the same state as
  feeding it the whole sequence at once. When the sequence is a valid framed one, the
  concatenation of the frames of some messages, both yield exactly these messages.
\<close>

theorem chunking_does_not_matter:
  "feed_all new_framer chunks = feed new_framer (concat chunks)
   \<and> (concat chunks = concat (map encode bodies) \<longrightarrow> fst (feed_all new_framer chunks) = bodies)"
  using feed_all_concat [OF drained_new, of chunks] feed_encoded [of bodies] by auto

theorem chunking_does_not_matter_witness:
  "fst (feed_all new_framer [''Content-Le'', ''ngth: 2'' @ header_end @ ''{'', ''}Content-Length: 3'' @ header_end @ ''[1'', '']'']) = [''{}'', ''[1]'']"
proof -
  have "concat [''Content-Le'', ''ngth: 2'' @ header_end @ ''{'', ''}Content-Length: 3'' @ header_end @ ''[1'', '']'']
      = concat (map encode [''{}'', ''[1]''])"
    by code_simp
  with chunking_does_not_matter [of "[''Content-Le'', ''ngth: 2'' @ header_end @ ''{'', ''}Content-Length: 3'' @ header_end @ ''[1'', '']'']" "[''{}'', ''[1]'']"]
  show ?thesis by blast
qed

end
